theory Spec2Isabelle
  imports Complex_Main
begin

section \<open>The TypeScript payment service (services/payment.ts, config.ts)\<close>

text \<open>
  The module-level \<^verbatim>\<open>nonceStore\<close> is a \<^verbatim>\<open>Set<string>\<close>; every function that touches it
  takes the store and returns the store it leaves behind. JavaScript runs one call at a
  time and \<^verbatim>\<open>verifyPayment\<close> contains no \<^verbatim>\<open>await\<close>, so a call is one atomic step.
  Console output is not part of the model.
\<close>

record PaymentContext =
  recipient :: string
  token :: string
  amount :: string
  chainId :: int
  nonce :: string
  timestamp :: int

text \<open>The fields of \<^verbatim>\<open>CONFIG\<close> that the payment path reads.\<close>

record Config =
  CHAIN_ID :: int
  TOKEN_SYMBOL :: string
  DEFAULT_PRICE :: string
  RECIPIENT_ADDRESS :: string

text \<open>JavaScript's \<^verbatim>\<open>a || b\<close> on an optional string: \<^verbatim>\<open>undefined\<close> and \<^verbatim>\<open>""\<close> are falsy.\<close>

definition falsy :: "string option \<Rightarrow> bool" where
  "falsy v = (case v of None \<Rightarrow> True | Some s \<Rightarrow> s = [])"

definition js_or :: "string option \<Rightarrow> string \<Rightarrow> string" where
  "js_or v d = (case v of None \<Rightarrow> d | Some s \<Rightarrow> if s = [] then d else s)"

text \<open>
  \<^verbatim>\<open>CONFIG\<close> as config.ts builds it from \<^verbatim>\<open>process.env\<close>. The chain id (a \<^verbatim>\<open>parseInt\<close>)
  and the recipient address (derived from the wallet key by the ethers library, or read
  from the environment) are taken as already computed.
\<close>

definition CONFIG :: "(string \<rightharpoonup> string) \<Rightarrow> int \<Rightarrow> string \<Rightarrow> Config" where
  "CONFIG env chain rcpt =
     \<lparr>CHAIN_ID = chain,
      TOKEN_SYMBOL = ''USDC'',
      DEFAULT_PRICE = js_or (env ''PAYMENT_AMOUNT'') ''0.001'',
      RECIPIENT_ADDRESS = rcpt\<rparr>"

text \<open>
  \<^verbatim>\<open>createPaymentContext(price = CONFIG.PAYMENT.DEFAULT_PRICE)\<close>: \<open>uuid\<close> is what
  \<^verbatim>\<open>uuidv4()\<close> returned and \<open>now_ms\<close> what \<^verbatim>\<open>Date.now()\<close> returned; an absent \<open>price\<close>
  argument takes the default.
\<close>

definition createPaymentContext ::
  "Config \<Rightarrow> string \<Rightarrow> int \<Rightarrow> string option \<Rightarrow> string set \<Rightarrow> PaymentContext \<times> string set" where
  "createPaymentContext cfg uuid now_ms price nonceStore =
     (\<lparr>recipient = RECIPIENT_ADDRESS cfg,
       token = TOKEN_SYMBOL cfg,
       amount = (case price of None \<Rightarrow> DEFAULT_PRICE cfg | Some p \<Rightarrow> p),
       chainId = CHAIN_ID cfg,
       nonce = uuid,
       timestamp = now_ms div 1000\<rparr>,
      insert uuid nonceStore)"

record VerifyResult =
  isValid :: bool
  error :: "string option"
  signer :: "string option"

text \<open>
  The EIP-712 message \<^verbatim>\<open>value\<close> that \<^verbatim>\<open>verifyPayment\<close> rebuilds from the context:
  recipient, token, amount, nonce, timestamp.
\<close>

type_synonym typedValue = "string \<times> string \<times> string \<times> string \<times> int"

definition typed_value :: "PaymentContext \<Rightarrow> typedValue" where
  "typed_value c = (recipient c, token c, amount c, nonce c, timestamp c)"

text \<open>
  \<^verbatim>\<open>ethers.verifyTypedData(DOMAIN, TYPES, value, signature)\<close> is a library call: it is the
  parameter \<open>verifyTypedData\<close>, which returns the recovered address, or \<open>None\<close> when the
  library throws. The \<^verbatim>\<open>try\<close>/\<^verbatim>\<open>catch\<close> of the source turns a throw into the second
  failure verdict.
\<close>

definition verifyPayment ::
  "(typedValue \<Rightarrow> string \<Rightarrow> string option) \<Rightarrow> PaymentContext \<Rightarrow> string \<Rightarrow> string set
     \<Rightarrow> VerifyResult \<times> string set" where
  "verifyPayment verifyTypedData c sg nonceStore =
     (if nonce c \<notin> nonceStore then
        (\<lparr>isValid = False, error = Some ''Invalid or expired nonce'', signer = None\<rparr>, nonceStore)
      else
        (case verifyTypedData (typed_value c) sg of
           None \<Rightarrow>
             (\<lparr>isValid = False, error = Some ''Signature verification failed'', signer = None\<rparr>,
              nonceStore)
         | Some signerAddress \<Rightarrow>
             (\<lparr>isValid = True, error = None, signer = Some signerAddress\<rparr>,
              nonceStore - {nonce c})))"

text \<open>A run of verification calls, one after the other, on the shared store.\<close>

fun verifyPayments ::
  "(typedValue \<Rightarrow> string \<Rightarrow> string option) \<Rightarrow> (PaymentContext \<times> string) list \<Rightarrow> string set
     \<Rightarrow> VerifyResult list \<times> string set" where
  "verifyPayments vtd [] st = ([], st)"
| "verifyPayments vtd ((c, sg) # cs) st =
     (let (r, st1) = verifyPayment vtd c sg st;
          (rs, st2) = verifyPayments vtd cs st1
      in (r # rs, st2))"

section \<open>The x402 middleware (middleware/x402.ts)\<close>

record Request =
  headers :: "string \<rightharpoonup> string"
  userWallet :: "string option"

datatype JsonBody =
  PaymentRequired string string PaymentContext
| Failure string "string option"

text \<open>
  What the middleware does with a request: it answers itself (\<open>Reply status body\<close>), or it
  calls \<^verbatim>\<open>next()\<close> and the downstream handler answers (\<open>Downstream\<close>, holding what that
  handler returned for the request as the middleware left it).
\<close>

datatype 'a Outcome = Reply int JsonBody | Downstream 'a

text \<open>
  \<^verbatim>\<open>parseInt(timestampHeader, 10)\<close> is the parameter \<open>parseInt\<close>; \<open>None\<close> stands for a
  result that \<^verbatim>\<open>Number.isInteger\<close> rejects (\<^verbatim>\<open>NaN\<close>).
\<close>

definition x402Middleware ::
  "Config \<Rightarrow> (typedValue \<Rightarrow> string \<Rightarrow> string option) \<Rightarrow> (string \<Rightarrow> int option) \<Rightarrow>
     string \<Rightarrow> int \<Rightarrow> (Request \<Rightarrow> 'a) \<Rightarrow> Request \<Rightarrow> string set \<Rightarrow> 'a Outcome \<times> string set" where
  "x402Middleware cfg verifyTypedData parseInt uuid now_ms next req nonceStore =
     (let sgH = headers req ''x-402-signature'';
          nonceH = headers req ''x-402-nonce'';
          timestampHeader = headers req ''x-402-timestamp''
      in
        if falsy sgH \<or> falsy nonceH then
          (let (paymentContext, st) = createPaymentContext cfg uuid now_ms None nonceStore
           in (Reply 402
                 (PaymentRequired ''Payment Required''
                    ''Please sign the payment context and retry with X-402-Signature and X-402-Nonce headers.''
                    paymentContext),
               st))
        else if falsy timestampHeader then
          (Reply 400 (Failure ''Invalid timestamp'' (Some ''Missing X-402-Timestamp header'')),
           nonceStore)
        else
          (case parseInt (js_or timestampHeader []) of
             None \<Rightarrow>
               (Reply 400 (Failure ''Invalid timestamp'' (Some ''Invalid X-402-Timestamp header'')),
                nonceStore)
           | Some parsedTimestamp \<Rightarrow>
               if parsedTimestamp \<le> 0 then
                 (Reply 400 (Failure ''Invalid timestamp'' (Some ''Invalid X-402-Timestamp header'')),
                  nonceStore)
               else
                 (let c = \<lparr>recipient = RECIPIENT_ADDRESS cfg,
                           token = TOKEN_SYMBOL cfg,
                           amount = DEFAULT_PRICE cfg,
                           chainId = CHAIN_ID cfg,
                           nonce = js_or nonceH [],
                           timestamp = parsedTimestamp\<rparr>;
                      (verification, st) = verifyPayment verifyTypedData c (js_or sgH []) nonceStore
                  in
                    if \<not> isValid verification then
                      (Reply 403 (Failure ''Payment Verification Failed'' (error verification)), st)
                    else
                      (Downstream (next (req\<lparr>userWallet := signer verification\<rparr>)), st))))"

text \<open>
  The context the middleware rebuilds for a request whose three headers are present: the
  server's recipient, token, price and chain, the client's nonce and timestamp.
\<close>

definition request_context :: "Config \<Rightarrow> string \<Rightarrow> int \<Rightarrow> PaymentContext" where
  "request_context cfg n ts =
     \<lparr>recipient = RECIPIENT_ADDRESS cfg, token = TOKEN_SYMBOL cfg, amount = DEFAULT_PRICE cfg,
      chainId = CHAIN_ID cfg, nonce = n, timestamp = ts\<rparr>"

section \<open>The Go gateway handler (handleSummarize, main.go)\<close>

record PaymentContext_go =
  Recipient :: string
  Token :: string
  Amount :: string
  Nonce :: string
  ChainID :: int

record VerifyRequest =
  Context :: PaymentContext_go
  Signature :: string

record VerifyResponse =
  IsValid :: bool
  RecoveredAddress :: string
  Error :: string

text \<open>The \<^verbatim>\<open>gin.H\<close> bodies the handler sends.\<close>

datatype H =
  H_payment string string PaymentContext_go
| H_error string
| H_details string string
| H_result string

text \<open>\<^verbatim>\<open>os.Getenv\<close> and \<^verbatim>\<open>c.GetHeader\<close> return the empty string for a missing name.\<close>

definition Getenv :: "(string \<rightharpoonup> string) \<Rightarrow> string \<Rightarrow> string" where
  "Getenv env k = (case env k of None \<Rightarrow> [] | Some v \<Rightarrow> v)"

definition GetHeader :: "(string \<rightharpoonup> string) \<Rightarrow> string \<Rightarrow> string" where
  "GetHeader hs k = (case hs k of None \<Rightarrow> [] | Some v \<Rightarrow> v)"

definition getRecipientAddress :: "(string \<rightharpoonup> string) \<Rightarrow> string" where
  "getRecipientAddress env =
     (let addr = Getenv env ''RECIPIENT_ADDRESS''
      in if addr = [] then ''0x2cAF48b4BA1C58721a85dFADa5aC01C2DFa62219'' else addr)"

text \<open>\<open>uuid\<close> is what \<^verbatim>\<open>uuid.New().String()\<close> returned.\<close>

definition createPaymentContext_go :: "(string \<rightharpoonup> string) \<Rightarrow> string \<Rightarrow> PaymentContext_go" where
  "createPaymentContext_go env uuid =
     \<lparr>Recipient = getRecipientAddress env,
      Token = ''USDC'',
      Amount = ''0.001'',
      Nonce = uuid,
      ChainID = 8453\<rparr>"

text \<open>
  The handler's collaborators are parameters: \<open>post url r\<close> is the HTTP call to the
  verifier service (\<open>None\<close> when \<^verbatim>\<open>http.Post\<close> returns an error, otherwise the decoded
  \<^verbatim>\<open>VerifyResponse\<close>), \<open>bindJSON\<close> reads the \<^verbatim>\<open>text\<close> field of the request body, and
  \<open>callOpenRouter\<close> is the AI provider call (\<open>Inl\<close> its error).
\<close>

definition handleSummarize ::
  "(string \<rightharpoonup> string) \<Rightarrow> (string \<Rightarrow> VerifyRequest \<Rightarrow> VerifyResponse option) \<Rightarrow>
     (string \<Rightarrow> string option) \<Rightarrow> (string \<Rightarrow> string + string) \<Rightarrow> string \<Rightarrow>
     (string \<rightharpoonup> string) \<Rightarrow> string \<Rightarrow> int \<times> H" where
  "handleSummarize env post bindJSON callOpenRouter uuid hs body =
     (let sg = GetHeader hs ''X-402-Signature'';
          nc = GetHeader hs ''X-402-Nonce''
      in
        if sg = [] \<or> nc = [] then
          (402, H_payment ''Payment Required'' ''Please sign the payment context''
                  (createPaymentContext_go env uuid))
        else
          (let c = \<lparr>Recipient = getRecipientAddress env, Token = ''USDC'', Amount = ''0.001'',
                    Nonce = nc, ChainID = 8453\<rparr>;
               verifyReq = \<lparr>Context = c, Signature = sg\<rparr>;
               verifierURL = (let u = Getenv env ''VERIFIER_URL''
                              in if u = [] then ''http://127.0.0.1:3002'' else u)
           in
             case post (verifierURL @ ''/verify'') verifyReq of
               None \<Rightarrow> (500, H_error ''Verification service unavailable'')
             | Some verifyResp \<Rightarrow>
                 if \<not> IsValid verifyResp then
                   (403, H_details ''Invalid Signature'' (Error verifyResp))
                 else
                   (case bindJSON body of
                      None \<Rightarrow> (400, H_error ''Invalid request body'')
                    | Some txt \<Rightarrow>
                        (case callOpenRouter txt of
                           Inl err \<Rightarrow> (500, H_details ''AI Service Failed'' err)
                         | Inr summary \<Rightarrow> (200, H_result summary)))))"

section \<open>The token-bucket rate limiter (gateway/ratelimit.go)\<close>














subsection \<open>Sequences of limiter calls\<close>








subsection \<open>The limiter as the specification words it\<close>




section \<open>The cache layer and the cached routes (specification, section 4.4)\<close>

text \<open>
  Modelled from the spec: the cache store behind \<^verbatim>\<open>CacheMiddleware\<close>; \<^verbatim>\<open>CacheMiddleware\<close>,
  \<^verbatim>\<open>getCacheKey\<close> and the Redis client of the gateway are not under src/. Section 4.4
  gives the contract \<^verbatim>\<open>lookup(key) -> Option<Result>\<close> and \<^verbatim>\<open>store(key, result, ttl)\<close> over an
  external key-value store. A cache state is the map from the keys to the results of its
  live entries; an entry past its ttl is a key without a value.
\<close>

type_synonym Cache = "string \<rightharpoonup> string"

text \<open>Modelled from the spec: \<^verbatim>\<open>lookup(key)\<close> of section 4.4, not under src/.\<close>

definition cache_lookup :: "Cache \<Rightarrow> string \<Rightarrow> string option" where
  "cache_lookup cache k = cache k"

text \<open>
  Modelled from the spec: \<^verbatim>\<open>store(key, result, ttl)\<close> of section 4.4, not under src/; the
  ttl only decides when the entry leaves the state.
\<close>

definition cache_store :: "Cache \<Rightarrow> string \<Rightarrow> string \<Rightarrow> Cache" where
  "cache_store cache k v = cache(k \<mapsto> v)"

text \<open>
  Modelled from the spec: the cache-aside step of section 4.4, which the gateway's
  \<^verbatim>\<open>CacheMiddleware\<close> (not under src/) implements: "the orchestrator checks lookup before
  invoking the external compute provider; on miss, it calls the provider, then stores the
  result". The key is a function of the request text and the model identifier, "never of
  payer identity"; \<^verbatim>\<open>getCacheKey\<close>, a content hash that is not under src/, is a
  parameter. A provider error stores nothing.
\<close>

definition cache_aside ::
  "(string \<Rightarrow> string \<Rightarrow> string) \<Rightarrow> string \<Rightarrow> (string \<Rightarrow> string + string) \<Rightarrow> string \<Rightarrow> Cache
     \<Rightarrow> (string + string) \<times> Cache" where
  "cache_aside getCacheKey model provider txt cache =
     (case cache_lookup cache (getCacheKey txt model) of
        Some v \<Rightarrow> (Inr v, cache)
      | None \<Rightarrow>
          (case provider txt of
             Inl err \<Rightarrow> (Inl err, cache)
           | Inr v \<Rightarrow> (Inr v, cache_store cache (getCacheKey txt model) v)))"

text \<open>
  Modelled from the spec: the cached route of the gateway, \<^verbatim>\<open>CacheMiddleware()\<close> followed
  by the cache-aware \<^verbatim>\<open>handleSummarize\<close>, as the integration test registers them; neither
  is under src/. Sections 4.4 and 4.6: verification "must run to completion and succeed
  before a cached result is returned, identically to the cache-miss path", and the benefit
  of a hit is to "skip the expensive provider call". So the route is the handler of src
  with the cache-aside step in the place of its provider call, and the cache changes only
  when the handler answered 200.
\<close>

definition summarize_route ::
  "(string \<rightharpoonup> string) \<Rightarrow> (string \<Rightarrow> VerifyRequest \<Rightarrow> VerifyResponse option) \<Rightarrow>
     (string \<Rightarrow> string option) \<Rightarrow> (string \<Rightarrow> string \<Rightarrow> string) \<Rightarrow> string \<Rightarrow>
     (string \<Rightarrow> string + string) \<Rightarrow> string \<Rightarrow> (string \<rightharpoonup> string) \<Rightarrow> string \<Rightarrow> Cache
     \<Rightarrow> (int \<times> H) \<times> Cache" where
  "summarize_route env post bindJSON getCacheKey model callOpenRouter uuid hs body cache =
     (let resp = handleSummarize env post bindJSON
                   (\<lambda>txt. fst (cache_aside getCacheKey model callOpenRouter txt cache)) uuid hs body
      in (resp,
          if fst resp = 200 then
            (case bindJSON body of
               None \<Rightarrow> cache
             | Some txt \<Rightarrow> snd (cache_aside getCacheKey model callOpenRouter txt cache))
          else cache))"

text \<open>
  Modelled from the spec: the same cache-aside step as the downstream handler of
  \<^verbatim>\<open>x402Middleware\<close>; the TypeScript service under src/ has no cache of its own.
  \<open>text_of\<close> reads the request text from the request the middleware passes on.
\<close>

definition x402_route ::
  "Config \<Rightarrow> (typedValue \<Rightarrow> string \<Rightarrow> string option) \<Rightarrow> (string \<Rightarrow> int option) \<Rightarrow> string \<Rightarrow> int \<Rightarrow>
     (string \<Rightarrow> string \<Rightarrow> string) \<Rightarrow> string \<Rightarrow> (Request \<Rightarrow> string) \<Rightarrow> (string \<Rightarrow> string + string) \<Rightarrow>
     Request \<Rightarrow> string set \<Rightarrow> Cache \<Rightarrow> (string + string) Outcome \<times> string set \<times> Cache" where
  "x402_route cfg verifyTypedData parseInt uuid now_ms getCacheKey model text_of provider req nonceStore cache =
     (case x402Middleware cfg verifyTypedData parseInt uuid now_ms
             (\<lambda>r. cache_aside getCacheKey model provider (text_of r) cache) req nonceStore of
        (Reply status jb, st) \<Rightarrow> (Reply status jb, st, cache)
      | (Downstream (res, cache1), st) \<Rightarrow> (Downstream res, st, cache1))"

section \<open>Notions and samples for the statements\<close>



text \<open>
  Sample collaborators for the concrete runs below. The signature check is the one of the
  repository's integration test: only \<^verbatim>\<open>0xValidSig\<close> recovers, to \<^verbatim>\<open>0xTestUser\<close>.
\<close>

definition sample_verifyTypedData :: "typedValue \<Rightarrow> string \<Rightarrow> string option" where
  "sample_verifyTypedData v sg = (if sg = ''0xValidSig'' then Some ''0xTestUser'' else None)"

definition sample_parseInt :: "string \<Rightarrow> int option" where
  "sample_parseInt s =
     (if s = ''1'' then Some 1 else if s = ''1700000000'' then Some 1700000000 else None)"

definition sample_config :: Config where
  "sample_config = CONFIG Map.empty 8453 ''0xTestRecipient''"

definition sample_uuid :: string where
  "sample_uuid = ''9c311e31-eb30-420a-bced-c0d68bc89cea''"

definition sample_request :: "string \<Rightarrow> string \<Rightarrow> string \<Rightarrow> Request" where
  "sample_request sg n ts =
     \<lparr>headers = [''x-402-signature'' \<mapsto> sg, ''x-402-nonce'' \<mapsto> n, ''x-402-timestamp'' \<mapsto> ts],
      userWallet = None\<rparr>"

definition sample_post :: "string \<Rightarrow> VerifyRequest \<Rightarrow> VerifyResponse option" where
  "sample_post url r =
     (if Signature r = ''0xValidSig''
      then Some \<lparr>IsValid = True, RecoveredAddress = ''0xTestUser'', Error = []\<rparr>
      else Some \<lparr>IsValid = False, RecoveredAddress = ''0xTestUser'', Error = ''Invalid signature''\<rparr>)"

text \<open>
  A request \<open>presents\<close> a payment when it carries a signature, a nonce and a timestamp
  header that parses to a positive integer: the requests the middleware verifies.
\<close>

definition presents ::
  "(string \<Rightarrow> int option) \<Rightarrow> Request \<Rightarrow> string \<Rightarrow> string \<Rightarrow> string \<Rightarrow> int \<Rightarrow> bool" where
  "presents parseInt req s n t p =
     (headers req ''x-402-signature'' = Some s \<and> s \<noteq> [] \<and>
      headers req ''x-402-nonce'' = Some n \<and> n \<noteq> [] \<and>
      headers req ''x-402-timestamp'' = Some t \<and> t \<noteq> [] \<and>
      parseInt t = Some p \<and> 0 < p)"

text \<open>The call to the verifier service that \<^verbatim>\<open>handleSummarize\<close> makes for given headers.\<close>

definition verify_call ::
  "(string \<rightharpoonup> string) \<Rightarrow> (string \<Rightarrow> VerifyRequest \<Rightarrow> VerifyResponse option) \<Rightarrow>
     (string \<rightharpoonup> string) \<Rightarrow> VerifyResponse option" where
  "verify_call env post hs =
     post ((let u = Getenv env ''VERIFIER_URL'' in if u = [] then ''http://127.0.0.1:3002'' else u)
             @ ''/verify'')
       \<lparr>Context = \<lparr>Recipient = getRecipientAddress env, Token = ''USDC'', Amount = ''0.001'',
                   Nonce = GetHeader hs ''X-402-Nonce'', ChainID = 8453\<rparr>,
        Signature = GetHeader hs ''X-402-Signature''\<rparr>"

text \<open>A downstream handler that answers from a cache hit, whatever the request.\<close>

definition sample_cached_handler :: "string \<Rightarrow> Request \<Rightarrow> string" where
  "sample_cached_handler cache req = cache"

definition sample_headers_go :: "string \<Rightarrow> string \<rightharpoonup> string" where
  "sample_headers_go sg = [''X-402-Signature'' \<mapsto> sg, ''X-402-Nonce'' \<mapsto> ''nonce-123'']"

definition no_headers :: Request where
  "no_headers = \<lparr>headers = Map.empty, userWallet = None\<rparr>"

text \<open>
  Samples for the cached routes: a key built from the model and the text, a cache that
  holds the entry for the text \<^verbatim>\<open>body\<close>, a request without the timestamp header and a
  verifier service that cannot be reached.
\<close>

definition sample_getCacheKey :: "string \<Rightarrow> string \<Rightarrow> string" where
  "sample_getCacheKey tx model = ''cache:'' @ model @ '':'' @ tx"

definition sample_model :: string where
  "sample_model = ''z-ai/glm-4.5-air:free''"

definition sample_cache :: Cache where
  "sample_cache = [sample_getCacheKey ''body'' sample_model \<mapsto> ''AI Summary Result'']"

definition sample_text_of :: "Request \<Rightarrow> string" where
  "sample_text_of req = ''body''"

definition sample_request_no_timestamp :: "string \<Rightarrow> string \<Rightarrow> Request" where
  "sample_request_no_timestamp sg n =
     \<lparr>headers = [''x-402-signature'' \<mapsto> sg, ''x-402-nonce'' \<mapsto> n], userWallet = None\<rparr>"

definition sample_post_down :: "string \<Rightarrow> VerifyRequest \<Rightarrow> VerifyResponse option" where
  "sample_post_down url r = None"

subsection \<open>Notions used to state the limiter's properties\<close>









section \<open>Properties of the payment service\<close>

lemma verifyPayment_unknown:
  "nonce c \<notin> st \<Longrightarrow>
     verifyPayment vtd c sg st =
       (\<lparr>isValid = False, error = Some ''Invalid or expired nonce'', signer = None\<rparr>, st)"
  by (simp add: verifyPayment_def)

lemma verifyPayment_throws:
  "nonce c \<in> st \<Longrightarrow> vtd (typed_value c) sg = None \<Longrightarrow>
     verifyPayment vtd c sg st =
       (\<lparr>isValid = False, error = Some ''Signature verification failed'', signer = None\<rparr>, st)"
  by (simp add: verifyPayment_def)

lemma verifyPayment_recovers:
  "nonce c \<in> st \<Longrightarrow> vtd (typed_value c) sg = Some a \<Longrightarrow>
     verifyPayment vtd c sg st =
       (\<lparr>isValid = True, error = None, signer = Some a\<rparr>, st - {nonce c})"
  by (simp add: verifyPayment_def)

lemma verifyPayment_valid_iff:
  "isValid (fst (verifyPayment vtd c sg st)) \<longleftrightarrow>
     nonce c \<in> st \<and> vtd (typed_value c) sg \<noteq> None"
  by (auto simp: verifyPayment_def split: option.splits)

lemma verifyPayment_store:
  "snd (verifyPayment vtd c sg st) =
     (if isValid (fst (verifyPayment vtd c sg st)) then st - {nonce c} else st)"
  by (auto simp: verifyPayment_def split: option.splits)

lemma verifyPayments_Cons:
  "verifyPayments vtd ((c, sg) # cs) st =
     (fst (verifyPayment vtd c sg st) # fst (verifyPayments vtd cs (snd (verifyPayment vtd c sg st))),
      snd (verifyPayments vtd cs (snd (verifyPayment vtd c sg st))))"
  by (simp add: case_prod_beta)

lemma verifyPayments_unknown:
  "n \<notin> st \<Longrightarrow> \<forall>(c, sg) \<in> set calls. nonce c = n \<Longrightarrow>
     snd (verifyPayments vtd calls st) = st \<and>
     (\<forall>r \<in> set (fst (verifyPayments vtd calls st)).
        \<not> isValid r \<and> error r = Some ''Invalid or expired nonce'')"
proof (induction calls)
  case Nil
  then show ?case by simp
next
  case (Cons x calls)
  obtain c sg where x: "x = (c, sg)" by (cases x)
  from Cons.prems x have nc: "nonce c \<notin> st" by auto
  from Cons have ih: "snd (verifyPayments vtd calls st) = st \<and>
     (\<forall>r \<in> set (fst (verifyPayments vtd calls st)).
        \<not> isValid r \<and> error r = Some ''Invalid or expired nonce'')" by auto
  show ?case using ih nc
    unfolding x verifyPayments_Cons by (simp add: verifyPayment_unknown)
qed

lemma verifyPayments_count:
  "n \<in> st \<Longrightarrow> \<forall>(c, sg) \<in> set calls. nonce c = n \<Longrightarrow>
     length (filter isValid (fst (verifyPayments vtd calls st))) =
       (if (\<exists>(c, sg) \<in> set calls. vtd (typed_value c) sg \<noteq> None) then 1 else 0)"
proof (induction calls)
  case Nil
  then show ?case by simp
next
  case (Cons x calls)
  obtain c sg where x: "x = (c, sg)" by (cases x)
  from Cons.prems x have nc: "nonce c = n" and rest: "\<forall>(c, sg) \<in> set calls. nonce c = n" by auto
  show ?case
  proof (cases "vtd (typed_value c) sg")
    case None
    with Cons.prems nc have "verifyPayment vtd c sg st =
       (\<lparr>isValid = False, error = Some ''Signature verification failed'', signer = None\<rparr>, st)"
      by (simp add: verifyPayment_throws)
    then show ?thesis using Cons.IH[OF Cons.prems(1) rest] None
      unfolding x verifyPayments_Cons by simp
  next
    case (Some a)
    with Cons.prems nc have v: "verifyPayment vtd c sg st =
       (\<lparr>isValid = True, error = None, signer = Some a\<rparr>, st - {n})"
      by (simp add: verifyPayment_recovers)
    have "n \<notin> st - {n}" by simp
    from verifyPayments_unknown[OF this rest, of vtd]
    have "filter isValid (fst (verifyPayments vtd calls (st - {n}))) = []"
      by (simp add: filter_empty_conv)
    then show ?thesis using Some v
      unfolding x verifyPayments_Cons by simp
  qed
qed

lemma verifyPayments_keeps:
  "n \<in> st \<Longrightarrow> \<forall>(c, sg) \<in> set calls. nonce c \<noteq> n \<or> vtd (typed_value c) sg = None \<Longrightarrow>
     n \<in> snd (verifyPayments vtd calls st)"
proof (induction calls arbitrary: st)
  case Nil
  then show ?case by simp
next
  case (Cons x calls)
  obtain c sg where x: "x = (c, sg)" by (cases x)
  from Cons.prems x have h: "nonce c \<noteq> n \<or> vtd (typed_value c) sg = None"
    and rest: "\<forall>(c, sg) \<in> set calls. nonce c \<noteq> n \<or> vtd (typed_value c) sg = None" by auto
  have "n \<in> snd (verifyPayment vtd c sg st)"
    using Cons.prems(1) h by (auto simp: verifyPayment_def split: option.splits)
  from Cons.IH[OF this rest] show ?case
    unfolding x verifyPayments_Cons by simp
qed

section \<open>Properties of the middleware and the handler\<close>

lemma x402_challenge:
  "falsy (headers req ''x-402-signature'') \<or> falsy (headers req ''x-402-nonce'') \<Longrightarrow>
     x402Middleware cfg vtd pI uuid now_ms nxt req st =
       (Reply 402
          (PaymentRequired ''Payment Required''
             ''Please sign the payment context and retry with X-402-Signature and X-402-Nonce headers.''
             (fst (createPaymentContext cfg uuid now_ms None st))),
        insert uuid st)"
  by (auto simp: x402Middleware_def createPaymentContext_def Let_def)

lemma x402_verify:
  "presents pI req s n t p \<Longrightarrow>
     x402Middleware cfg vtd pI uuid now_ms nxt req st =
       (if isValid (fst (verifyPayment vtd (request_context cfg n p) s st))
        then Downstream (nxt (req\<lparr>userWallet := signer (fst (verifyPayment vtd (request_context cfg n p) s st))\<rparr>))
        else Reply 403 (Failure ''Payment Verification Failed''
               (error (fst (verifyPayment vtd (request_context cfg n p) s st)))),
        snd (verifyPayment vtd (request_context cfg n p) s st))"
  by (simp add: x402Middleware_def presents_def falsy_def js_or_def Let_def request_context_def
      case_prod_beta)

lemma x402_downstream:
  assumes "fst (x402Middleware cfg vtd pI uuid now_ms nxt req st) = Downstream r"
  shows "\<exists>s n t p. presents pI req s n t p \<and>
           isValid (fst (verifyPayment vtd (request_context cfg n p) s st)) \<and>
           r = nxt (req\<lparr>userWallet := signer (fst (verifyPayment vtd (request_context cfg n p) s st))\<rparr>)"
proof -
  from assms have a: "\<not> falsy (headers req ''x-402-signature'')" "\<not> falsy (headers req ''x-402-nonce'')"
    by (auto simp: x402Middleware_def Let_def case_prod_beta)
  from assms a have b: "\<not> falsy (headers req ''x-402-timestamp'')"
    by (auto simp: x402Middleware_def Let_def case_prod_beta)
  from a b obtain s n t where h: "headers req ''x-402-signature'' = Some s" "s \<noteq> []"
      "headers req ''x-402-nonce'' = Some n" "n \<noteq> []"
      "headers req ''x-402-timestamp'' = Some t" "t \<noteq> []"
    by (auto simp: falsy_def split: option.splits)
  from assms a b h obtain p where p: "pI t = Some p" "0 < p"
    by (cases "pI t") (auto simp: x402Middleware_def Let_def case_prod_beta js_or_def split: if_splits)
  from h p have pr: "presents pI req s n t p" by (simp add: presents_def)
  from assms show ?thesis unfolding x402_verify[OF pr] using pr
    by (auto split: if_splits)
qed

lemma x402_status:
  assumes "fst (x402Middleware cfg vtd pI uuid now_ms nxt req st) = Reply status body"
  shows "status = 402 \<or> status = 400 \<or> status = 403"
  using assms
  by (auto simp: x402Middleware_def Let_def case_prod_beta split: if_splits option.splits)

lemma handleSummarize_challenge:
  "GetHeader hs ''X-402-Signature'' = [] \<or> GetHeader hs ''X-402-Nonce'' = [] \<Longrightarrow>
     handleSummarize env post bindJSON callOpenRouter uuid hs body =
       (402, H_payment ''Payment Required'' ''Please sign the payment context''
               (createPaymentContext_go env uuid))"
  by (auto simp: handleSummarize_def Let_def)

lemma handleSummarize_rejects:
  "GetHeader hs ''X-402-Signature'' \<noteq> [] \<Longrightarrow> GetHeader hs ''X-402-Nonce'' \<noteq> [] \<Longrightarrow>
   verify_call env post hs = Some resp \<Longrightarrow> \<not> IsValid resp \<Longrightarrow>
     handleSummarize env post bindJSON callOpenRouter uuid hs body =
       (403, H_details ''Invalid Signature'' (Error resp))"
  by (simp add: handleSummarize_def verify_call_def Let_def)

lemma handleSummarize_served:
  assumes "fst (handleSummarize env post bindJSON callOpenRouter uuid hs body) = 200"
  shows "GetHeader hs ''X-402-Signature'' \<noteq> [] \<and> GetHeader hs ''X-402-Nonce'' \<noteq> [] \<and>
         (\<exists>resp. verify_call env post hs = Some resp \<and> IsValid resp)"
  using assms
  by (auto simp: handleSummarize_def verify_call_def Let_def split: if_splits option.splits sum.splits)


lemma presents_sample:
  "sg \<noteq> [] \<Longrightarrow> presents sample_parseInt (sample_request sg ''n1'' ''1700000000'') sg ''n1'' ''1700000000'' 1700000000"
  by (simp add: presents_def sample_request_def sample_parseInt_def)

lemma x402_accepts:
  assumes "presents pI req s n t p" and "n \<in> st"
    and "vtd (typed_value (request_context cfg n p)) s = Some a"
  shows "x402Middleware cfg vtd pI uuid now_ms nxt req st =
           (Downstream (nxt (req\<lparr>userWallet := Some a\<rparr>)), st - {n})"
proof -
  have "nonce (request_context cfg n p) = n" by (simp add: request_context_def)
  with assms(2,3) have "verifyPayment vtd (request_context cfg n p) s st =
      (\<lparr>isValid = True, error = None, signer = Some a\<rparr>, st - {n})"
    using verifyPayment_recovers[of "request_context cfg n p" st vtd s a] by simp
  then show ?thesis by (simp add: x402_verify[OF assms(1)])
qed

lemma x402_no_clock:
  "presents pI req s n t p \<Longrightarrow>
     x402Middleware cfg vtd pI uuid1 now1 nxt req st = x402Middleware cfg vtd pI uuid2 now2 nxt req st"
  by (simp add: x402_verify[of pI req s n t p])

section \<open>Properties of the rate limiter\<close>















































section \<open>Properties of the cached routes\<close>

lemma cache_aside_hit:
  "cache (getCacheKey txt model) = Some v \<Longrightarrow>
     cache_aside getCacheKey model provider txt cache = (Inr v, cache)"
  by (simp add: cache_aside_def cache_lookup_def)

lemma cache_aside_unchanged:
  "fst (cache_aside getCacheKey model provider txt cache) = Inl err \<Longrightarrow>
     snd (cache_aside getCacheKey model provider txt cache) = cache"
  by (auto simp: cache_aside_def split: option.splits sum.splits)

lemma route_challenge:
  "GetHeader hs ''X-402-Signature'' = [] \<or> GetHeader hs ''X-402-Nonce'' = [] \<Longrightarrow>
     summarize_route env post bindJSON getCacheKey model callOpenRouter uuid hs payload cache =
       ((402, H_payment ''Payment Required'' ''Please sign the payment context''
                (createPaymentContext_go env uuid)), cache)"
  by (simp add: summarize_route_def handleSummarize_challenge Let_def)

lemma route_rejects:
  "GetHeader hs ''X-402-Signature'' \<noteq> [] \<Longrightarrow> GetHeader hs ''X-402-Nonce'' \<noteq> [] \<Longrightarrow>
   verify_call env post hs = Some resp \<Longrightarrow> \<not> IsValid resp \<Longrightarrow>
     summarize_route env post bindJSON getCacheKey model callOpenRouter uuid hs payload cache =
       ((403, H_details ''Invalid Signature'' (Error resp)), cache)"
  by (simp add: summarize_route_def handleSummarize_rejects Let_def)

lemma route_unavailable:
  "GetHeader hs ''X-402-Signature'' \<noteq> [] \<Longrightarrow> GetHeader hs ''X-402-Nonce'' \<noteq> [] \<Longrightarrow>
   verify_call env post hs = None \<Longrightarrow>
     summarize_route env post bindJSON getCacheKey model callOpenRouter uuid hs payload cache =
       ((500, H_error ''Verification service unavailable''), cache)"
  by (simp add: summarize_route_def handleSummarize_def verify_call_def Let_def)

lemma route_result:
  assumes "fst (summarize_route env post bindJSON getCacheKey model callOpenRouter uuid hs payload cache)
             = (status, H_result v)"
  shows "status = 200 \<and> GetHeader hs ''X-402-Signature'' \<noteq> [] \<and> GetHeader hs ''X-402-Nonce'' \<noteq> [] \<and>
         (\<exists>resp1. verify_call env post hs = Some resp1 \<and> IsValid resp1)"
  using assms
  by (auto simp: summarize_route_def handleSummarize_def verify_call_def Let_def
      split: if_splits option.splits sum.splits)

lemma route_hit:
  "GetHeader hs ''X-402-Signature'' \<noteq> [] \<Longrightarrow> GetHeader hs ''X-402-Nonce'' \<noteq> [] \<Longrightarrow>
   verify_call env post hs = Some resp \<Longrightarrow> IsValid resp \<Longrightarrow> bindJSON payload = Some txt \<Longrightarrow>
   cache (getCacheKey txt model) = Some v \<Longrightarrow>
     summarize_route env post bindJSON getCacheKey model callOpenRouter uuid hs payload cache =
       ((200, H_result v), cache)"
  by (simp add: summarize_route_def handleSummarize_def verify_call_def Let_def cache_aside_hit)

lemma route_miss:
  "GetHeader hs ''X-402-Signature'' \<noteq> [] \<Longrightarrow> GetHeader hs ''X-402-Nonce'' \<noteq> [] \<Longrightarrow>
   verify_call env post hs = Some resp \<Longrightarrow> IsValid resp \<Longrightarrow> bindJSON payload = Some txt \<Longrightarrow>
   cache (getCacheKey txt model) = None \<Longrightarrow> callOpenRouter txt = Inr v \<Longrightarrow>
     summarize_route env post bindJSON getCacheKey model callOpenRouter uuid hs payload cache =
       ((200, H_result v), cache(getCacheKey txt model \<mapsto> v))"
  by (simp add: summarize_route_def handleSummarize_def verify_call_def Let_def cache_aside_def
      cache_lookup_def cache_store_def)

lemma x402_route_challenge:
  "falsy (headers req ''x-402-signature'') \<or> falsy (headers req ''x-402-nonce'') \<Longrightarrow>
     x402_route cfg vtd pI uuid now_ms getCacheKey model text_of provider req st cache =
       (Reply 402
          (PaymentRequired ''Payment Required''
             ''Please sign the payment context and retry with X-402-Signature and X-402-Nonce headers.''
             (fst (createPaymentContext cfg uuid now_ms None st))),
        insert uuid st, cache)"
  by (simp add: x402_route_def x402_challenge)

lemma x402_route_rejects:
  assumes "presents pI req s n t p"
    and "\<not> isValid (fst (verifyPayment vtd (request_context cfg n p) s st))"
  shows "x402_route cfg vtd pI uuid now_ms getCacheKey model text_of provider req st cache =
       (Reply 403 (Failure ''Payment Verification Failed''
                     (error (fst (verifyPayment vtd (request_context cfg n p) s st)))),
        st, cache)"
proof -
  from assms(2) have "snd (verifyPayment vtd (request_context cfg n p) s st) = st"
    by (simp add: verifyPayment_store)
  with assms(2) show ?thesis
    by (simp add: x402_route_def x402_verify[OF assms(1)])
qed

lemma x402_route_no_timestamp:
  "\<not> falsy (headers req ''x-402-signature'') \<Longrightarrow> \<not> falsy (headers req ''x-402-nonce'') \<Longrightarrow>
   falsy (headers req ''x-402-timestamp'') \<Longrightarrow>
     x402_route cfg vtd pI uuid now_ms getCacheKey model text_of provider req st cache =
       (Reply 400 (Failure ''Invalid timestamp'' (Some ''Missing X-402-Timestamp header'')), st, cache)"
  by (simp add: x402_route_def x402Middleware_def Let_def)

lemma x402_route_downstream:
  assumes "fst (x402_route cfg vtd pI uuid now_ms getCacheKey model text_of provider req st cache)
             = Downstream res"
  shows "\<exists>s1 n1 t1 p1. presents pI req s1 n1 t1 p1 \<and>
           isValid (fst (verifyPayment vtd (request_context cfg n1 p1) s1 st))"
proof -
  obtain out st1 where o: "x402Middleware cfg vtd pI uuid now_ms
             (\<lambda>r. cache_aside getCacheKey model provider (text_of r) cache) req st = (out, st1)"
    by (cases "x402Middleware cfg vtd pI uuid now_ms
             (\<lambda>r. cache_aside getCacheKey model provider (text_of r) cache) req st")
  with assms obtain r where "out = Downstream r"
    by (cases out) (auto simp: x402_route_def split: prod.splits)
  with o have "fst (x402Middleware cfg vtd pI uuid now_ms
             (\<lambda>r. cache_aside getCacheKey model provider (text_of r) cache) req st) = Downstream r"
    by simp
  from x402_downstream[OF this] show ?thesis by blast
qed

lemma x402_route_reply:
  assumes "fst (x402_route cfg vtd pI uuid now_ms getCacheKey model text_of provider req st cache)
             = Reply status jb"
  shows "(status = 402 \<or> status = 400 \<or> status = 403) \<and>
         snd (snd (x402_route cfg vtd pI uuid now_ms getCacheKey model text_of provider req st cache)) = cache"
proof -
  obtain out st1 where o: "x402Middleware cfg vtd pI uuid now_ms
             (\<lambda>r. cache_aside getCacheKey model provider (text_of r) cache) req st = (out, st1)"
    by (cases "x402Middleware cfg vtd pI uuid now_ms
             (\<lambda>r. cache_aside getCacheKey model provider (text_of r) cache) req st")
  with assms have out: "out = Reply status jb"
    by (cases out) (auto simp: x402_route_def split: prod.splits)
  with o have "fst (x402Middleware cfg vtd pI uuid now_ms
             (\<lambda>r. cache_aside getCacheKey model provider (text_of r) cache) req st) = Reply status jb"
    by simp
  from x402_status[OF this] o out show ?thesis
    by (simp add: x402_route_def)
qed

lemma x402_route_hit:
  assumes "presents pI req s n t p" and "n \<in> st"
    and "vtd (typed_value (request_context cfg n p)) s = Some a"
    and "cache (getCacheKey (text_of (req\<lparr>userWallet := Some a\<rparr>)) model) = Some v"
  shows "x402_route cfg vtd pI uuid now_ms getCacheKey model text_of provider req st cache =
           (Downstream (Inr v), st - {n}, cache)"
  unfolding x402_route_def
    x402_accepts[where vtd = vtd, OF assms(1,2,3)]
  using assms(4) by (simp add: cache_aside_def cache_lookup_def)

section \<open>Claims about the payment service\<close>

text \<open>
  Claim C10. When signature recovery fails (\<^verbatim>\<open>verifyTypedData\<close> throws) on a nonce that is
  in the store, \<^verbatim>\<open>verifyPayment\<close> returns \<open>isValid = false\<close> with the error
  "Signature verification failed" and leaves the nonce store as it was: the presented nonce
  is still there, so the same nonce succeeds on a later call whose signature recovers.
  A nonce leaves the store only in a call whose recovery succeeded, and that call is valid.
\<close>

theorem C10_failed_recovery_keeps_nonce:
  assumes "nonce c \<in> st" and "vtd (typed_value c) sg = None"
  shows "verifyPayment vtd c sg st =
           (\<lparr>isValid = False, error = Some ''Signature verification failed'', signer = None\<rparr>, st)
         \<and> nonce c \<in> snd (verifyPayment vtd c sg st)
         \<and> (vtd (typed_value c) sg2 = Some a \<longrightarrow>
              verifyPayment vtd c sg2 (snd (verifyPayment vtd c sg st)) =
                (\<lparr>isValid = True, error = None, signer = Some a\<rparr>, st - {nonce c}))
         \<and> (nonce c3 \<in> st3 \<and> nonce c3 \<notin> snd (verifyPayment vtd c3 sg3 st3) \<longrightarrow>
              (\<exists>a3. vtd (typed_value c3) sg3 = Some a3) \<and> isValid (fst (verifyPayment vtd c3 sg3 st3)))"
  using assms by (auto simp: verifyPayment_def split: option.splits)

text \<open>
  C10 on the sample collaborators: a bad signature on the live nonce \<open>n1\<close> fails and keeps
  the store, the retry with the good signature succeeds and consumes the nonce.
\<close>

theorem C10_witness:
  "nonce (request_context sample_config ''n1'' 1700000000) \<in> {''n1''}
   \<and> sample_verifyTypedData (typed_value (request_context sample_config ''n1'' 1700000000)) ''0xInvalidSig'' = None
   \<and> \<not> isValid (fst (verifyPayment sample_verifyTypedData (request_context sample_config ''n1'' 1700000000) ''0xInvalidSig'' {''n1''}))
   \<and> snd (verifyPayment sample_verifyTypedData (request_context sample_config ''n1'' 1700000000) ''0xInvalidSig'' {''n1''}) = {''n1''}
   \<and> sample_verifyTypedData (typed_value (request_context sample_config ''n1'' 1700000000)) ''0xValidSig'' = Some ''0xTestUser''
   \<and> isValid (fst (verifyPayment sample_verifyTypedData (request_context sample_config ''n1'' 1700000000) ''0xValidSig''
        (snd (verifyPayment sample_verifyTypedData (request_context sample_config ''n1'' 1700000000) ''0xInvalidSig'' {''n1''}))))
   \<and> ''n1'' \<notin> snd (verifyPayment sample_verifyTypedData (request_context sample_config ''n1'' 1700000000) ''0xValidSig'' {''n1''})"
  using C10_failed_recovery_keeps_nonce [where vtd = sample_verifyTypedData
        and c = "request_context sample_config ''n1'' 1700000000" and sg = "''0xInvalidSig''"
        and st = "{''n1''}" and ?sg2.0 = "''0xValidSig''" and a = "''0xTestUser''"
        and ?c3.0 = "request_context sample_config ''n1'' 1700000000" and ?sg3.0 = "''0xValidSig''"
        and ?st3.0 = "{''n1''}"]
  by (simp add: verifyPayment_def sample_verifyTypedData_def request_context_def typed_value_def)

text \<open>
  Against claim C5 as stated: a successful \<^verbatim>\<open>verifyPayment\<close> call has deleted the nonce
  from the store it was given.
\<close>

theorem C5_counterexample:
  "snd (verifyPayment sample_verifyTypedData (request_context sample_config ''n1'' 1700000000)
          ''0xValidSig'' {''n1''}) \<noteq> {''n1''}"
  by (simp add: verifyPayment_def sample_verifyTypedData_def request_context_def)

text \<open>
  Claim C5, amended. \<^verbatim>\<open>verifyPayment\<close> reads the nonce store and consumes the nonce
  itself: when it returns \<open>isValid = true\<close> the store it leaves is the one it was given
  without the presented nonce (every other entry untouched), and when it returns
  \<open>isValid = false\<close> the store is unchanged. The verdict is valid exactly when the nonce is
  in the store and the signature recovers.
\<close>

theorem C5_verifier_consumes_nonce:
  "snd (verifyPayment vtd c sg st) =
     (if isValid (fst (verifyPayment vtd c sg st)) then st - {nonce c} else st)
   \<and> (isValid (fst (verifyPayment vtd c sg st)) \<longleftrightarrow>
        nonce c \<in> st \<and> vtd (typed_value c) sg \<noteq> None)"
  by (auto simp: verifyPayment_def split: option.splits)

text \<open>
  Against claim C2 as stated: two calls present the live nonce \<open>n1\<close> with a signature that
  does not recover, and none of them succeeds.
\<close>

theorem C2_counterexample:
  "length (filter isValid (fst (verifyPayments sample_verifyTypedData
      [(request_context sample_config ''n1'' 1700000000, ''0xInvalidSig''),
       (request_context sample_config ''n1'' 1700000000, ''0xInvalidSig'')] {''n1''}))) \<noteq> 1"
  by (simp add: verifyPayment_def sample_verifyTypedData_def request_context_def)

text \<open>
  Claim C2, amended. Of N \<^verbatim>\<open>verifyPayment\<close> calls that present the same nonce, at most one
  succeeds: exactly one when the nonce is in the store and some call carries a signature
  that recovers (the first such call), none otherwise. After a successful call every
  further call with that nonce returns "Invalid or expired nonce", and so does every call
  with a nonce that is not in the store.
\<close>

theorem C2_nonce_single_use:
  assumes "\<forall>(c, sg) \<in> set calls. nonce c = n"
  shows "length (filter isValid (fst (verifyPayments vtd calls st))) =
           (if n \<in> st \<and> (\<exists>(c, sg) \<in> set calls. vtd (typed_value c) sg \<noteq> None) then 1 else 0)
         \<and> (isValid (fst (verifyPayment vtd c1 sg1 st)) \<and> nonce c2 = nonce c1 \<longrightarrow>
              fst (verifyPayment vtd c2 sg2 (snd (verifyPayment vtd c1 sg1 st))) =
                \<lparr>isValid = False, error = Some ''Invalid or expired nonce'', signer = None\<rparr>)
         \<and> (n \<notin> st \<longrightarrow>
              (\<forall>r \<in> set (fst (verifyPayments vtd calls st)).
                 \<not> isValid r \<and> error r = Some ''Invalid or expired nonce''))"
proof (intro conjI)
  show "length (filter isValid (fst (verifyPayments vtd calls st))) =
           (if n \<in> st \<and> (\<exists>(c, sg) \<in> set calls. vtd (typed_value c) sg \<noteq> None) then 1 else 0)"
  proof (cases "n \<in> st")
    case True
    then show ?thesis using verifyPayments_count[OF True assms, of vtd] by simp
  next
    case False
    from verifyPayments_unknown[OF False assms, of vtd]
    have "filter isValid (fst (verifyPayments vtd calls st)) = []"
      by (simp add: filter_empty_conv)
    with False show ?thesis by simp
  qed
  show "isValid (fst (verifyPayment vtd c1 sg1 st)) \<and> nonce c2 = nonce c1 \<longrightarrow>
          fst (verifyPayment vtd c2 sg2 (snd (verifyPayment vtd c1 sg1 st))) =
            \<lparr>isValid = False, error = Some ''Invalid or expired nonce'', signer = None\<rparr>"
    by (auto simp: verifyPayment_def split: option.splits)
  show "n \<notin> st \<longrightarrow>
          (\<forall>r \<in> set (fst (verifyPayments vtd calls st)).
             \<not> isValid r \<and> error r = Some ''Invalid or expired nonce'')"
    using verifyPayments_unknown[OF _ assms, of st vtd] by blast
qed

text \<open>
  C2 on the sample collaborators: a bad signature, then two good ones, all on \<open>n1\<close>;
  only the second call succeeds, and a replay after a success fails.
\<close>

theorem C2_witness:
  "map (nonce \<circ> fst) [(request_context sample_config ''n1'' 1700000000, ''0xInvalidSig''),
                      (request_context sample_config ''n1'' 1700000000, ''0xValidSig''),
                      (request_context sample_config ''n1'' 1700000000, ''0xValidSig'')]
     = [''n1'', ''n1'', ''n1'']
   \<and> length (filter isValid (fst (verifyPayments sample_verifyTypedData
        [(request_context sample_config ''n1'' 1700000000, ''0xInvalidSig''),
         (request_context sample_config ''n1'' 1700000000, ''0xValidSig''),
         (request_context sample_config ''n1'' 1700000000, ''0xValidSig'')] {''n1''}))) = 1
   \<and> map isValid (fst (verifyPayments sample_verifyTypedData
        [(request_context sample_config ''n1'' 1700000000, ''0xInvalidSig''),
         (request_context sample_config ''n1'' 1700000000, ''0xValidSig''),
         (request_context sample_config ''n1'' 1700000000, ''0xValidSig'')] {''n1''})) = [False, True, False]
   \<and> isValid (fst (verifyPayment sample_verifyTypedData
        (request_context sample_config ''n1'' 1700000000) ''0xValidSig'' {''n1''}))
   \<and> \<not> isValid (fst (verifyPayment sample_verifyTypedData
        (request_context sample_config ''n1'' 1700000000) ''0xValidSig''
        (snd (verifyPayment sample_verifyTypedData
           (request_context sample_config ''n1'' 1700000000) ''0xValidSig'' {''n1''}))))"
proof -
  have h: "\<forall>(c, sg) \<in> set [(request_context sample_config ''n1'' 1700000000, ''0xInvalidSig''),
                      (request_context sample_config ''n1'' 1700000000, ''0xValidSig''),
                      (request_context sample_config ''n1'' 1700000000, ''0xValidSig'')]. nonce c = ''n1''"
    by (simp add: request_context_def)
  show ?thesis
    using C2_nonce_single_use [where vtd = sample_verifyTypedData and st = "{''n1''}" and n = "''n1''"
        and ?c1.0 = "request_context sample_config ''n1'' 1700000000" and ?sg1.0 = "''0xValidSig''"
        and ?c2.0 = "request_context sample_config ''n1'' 1700000000" and ?sg2.0 = "''0xValidSig''"
        and calls = "[(request_context sample_config ''n1'' 1700000000, ''0xInvalidSig''),
                      (request_context sample_config ''n1'' 1700000000, ''0xValidSig''),
                      (request_context sample_config ''n1'' 1700000000, ''0xValidSig'')]", OF h]
    by (simp add: verifyPayment_def sample_verifyTypedData_def request_context_def)
qed

section \<open>Claims about the request path\<close>

text \<open>
  Against claim C1 as stated: a request carries a signature that the verifier does not
  recover, and a nonce, but no timestamp header; the middleware answers 400, neither 402
  nor 403.
\<close>

theorem C1_counterexample:
  "headers (sample_request_no_timestamp ''0xInvalidSig'' ''n1'') ''x-402-signature'' = Some ''0xInvalidSig''
   \<and> sample_verifyTypedData (typed_value (request_context sample_config ''n1'' 1700000000)) ''0xInvalidSig''
        = None
   \<and> x402Middleware sample_config sample_verifyTypedData sample_parseInt sample_uuid 1700000000000
        (sample_cached_handler ''AI Summary Result'')
        (sample_request_no_timestamp ''0xInvalidSig'' ''n1'') {''n1''}
       = (Reply 400 (Failure ''Invalid timestamp'' (Some ''Missing X-402-Timestamp header'')), {''n1''})"
  by (simp add: sample_request_no_timestamp_def sample_verifyTypedData_def x402Middleware_def
      falsy_def Let_def)

text \<open>
  Claim C1, amended. For every request whose \<^verbatim>\<open>X-402-Signature\<close> is missing, or is present
  but not verified as valid, and for every cache state (also one that holds the entry for
  the request's content key), the cached value is never returned and the cache is left as
  it was. The response is 402 when the signature or the nonce header is missing, 403 when
  verification ran and returned invalid, 400 when the TypeScript middleware finds the
  timestamp header missing, before it verifies, and 500 when the Go handler cannot reach
  the verifier; every reply the TypeScript middleware sends itself has status 402, 400 or
  403. A result, cached or computed, is returned only after verification succeeded, on the
  same path for a hit and a miss: a hit then skips the provider call, a miss calls the
  provider and stores the result.
\<close>

theorem C1_cache_never_bypasses_payment:
  "(GetHeader hs ''X-402-Signature'' = [] \<or> GetHeader hs ''X-402-Nonce'' = [] \<longrightarrow>
      summarize_route env post bindJSON getCacheKey model callOpenRouter uuid hs payload cache = ((402, H_payment ''Payment Required'' ''Please sign the payment context''
               (createPaymentContext_go env uuid)), cache))
   \<and> (GetHeader hs ''X-402-Signature'' \<noteq> [] \<and> GetHeader hs ''X-402-Nonce'' \<noteq> [] \<and>
      verify_call env post hs = Some resp \<and> \<not> IsValid resp \<longrightarrow>
        summarize_route env post bindJSON getCacheKey model callOpenRouter uuid hs payload cache = ((403, H_details ''Invalid Signature'' (Error resp)), cache))
   \<and> (GetHeader hs ''X-402-Signature'' \<noteq> [] \<and> GetHeader hs ''X-402-Nonce'' \<noteq> [] \<and>
      verify_call env post hs = None \<longrightarrow>
        summarize_route env post bindJSON getCacheKey model callOpenRouter uuid hs payload cache = ((500, H_error ''Verification service unavailable''), cache))
   \<and> (fst (summarize_route env post bindJSON getCacheKey model callOpenRouter uuid hs payload cache) = (status, H_result v) \<longrightarrow>
        status = 200 \<and> GetHeader hs ''X-402-Signature'' \<noteq> [] \<and> GetHeader hs ''X-402-Nonce'' \<noteq> [] \<and>
        (\<exists>resp1. verify_call env post hs = Some resp1 \<and> IsValid resp1))
   \<and> (GetHeader hs ''X-402-Signature'' \<noteq> [] \<and> GetHeader hs ''X-402-Nonce'' \<noteq> [] \<and>
      verify_call env post hs = Some resp \<and> IsValid resp \<and> bindJSON payload = Some tx \<and>
      cache (getCacheKey tx model) = Some v \<longrightarrow>
        summarize_route env post bindJSON getCacheKey model callOpenRouter uuid hs payload cache = ((200, H_result v), cache))
   \<and> (GetHeader hs ''X-402-Signature'' \<noteq> [] \<and> GetHeader hs ''X-402-Nonce'' \<noteq> [] \<and>
      verify_call env post hs = Some resp \<and> IsValid resp \<and> bindJSON payload = Some tx \<and>
      cache (getCacheKey tx model) = None \<and> callOpenRouter tx = Inr v \<longrightarrow>
        summarize_route env post bindJSON getCacheKey model callOpenRouter uuid hs payload cache = ((200, H_result v), cache(getCacheKey tx model \<mapsto> v)))
   \<and> (falsy (headers req ''x-402-signature'') \<or> falsy (headers req ''x-402-nonce'') \<longrightarrow>
        x402_route cfg vtd pI uuid now_ms getCacheKey model text_of provider req st cache =
          (Reply 402
             (PaymentRequired ''Payment Required''
                ''Please sign the payment context and retry with X-402-Signature and X-402-Nonce headers.''
                (fst (createPaymentContext cfg uuid now_ms None st))),
           insert uuid st, cache))
   \<and> (presents pI req s n t p \<and> \<not> isValid (fst (verifyPayment vtd (request_context cfg n p) s st)) \<longrightarrow>
        x402_route cfg vtd pI uuid now_ms getCacheKey model text_of provider req st cache =
          (Reply 403 (Failure ''Payment Verification Failed''
                        (error (fst (verifyPayment vtd (request_context cfg n p) s st)))),
           st, cache))
   \<and> (\<not> falsy (headers req ''x-402-signature'') \<and> \<not> falsy (headers req ''x-402-nonce'') \<and>
      falsy (headers req ''x-402-timestamp'') \<longrightarrow>
        x402_route cfg vtd pI uuid now_ms getCacheKey model text_of provider req st cache =
          (Reply 400 (Failure ''Invalid timestamp'' (Some ''Missing X-402-Timestamp header'')), st, cache))
   \<and> (fst (x402_route cfg vtd pI uuid now_ms getCacheKey model text_of provider req st cache) = Downstream res \<longrightarrow>
        (\<exists>s1 n1 t1 p1. presents pI req s1 n1 t1 p1 \<and>
           isValid (fst (verifyPayment vtd (request_context cfg n1 p1) s1 st))))
   \<and> (fst (x402_route cfg vtd pI uuid now_ms getCacheKey model text_of provider req st cache) = Reply status2 jb \<longrightarrow>
        (status2 = 402 \<or> status2 = 400 \<or> status2 = 403) \<and> snd (snd (x402_route cfg vtd pI uuid now_ms getCacheKey model text_of provider req st cache)) = cache)
   \<and> (presents pI req s n t p \<and> n \<in> st \<and> vtd (typed_value (request_context cfg n p)) s = Some a \<and>
      cache (getCacheKey (text_of (req\<lparr>userWallet := Some a\<rparr>)) model) = Some v2 \<longrightarrow>
        x402_route cfg vtd pI uuid now_ms getCacheKey model text_of provider req st cache = (Downstream (Inr v2), st - {n}, cache))"
proof (intro conjI impI)
  show "summarize_route env post bindJSON getCacheKey model callOpenRouter uuid hs payload cache = ((402, H_payment ''Payment Required'' ''Please sign the payment context''
               (createPaymentContext_go env uuid)), cache)"
    if "GetHeader hs ''X-402-Signature'' = [] \<or> GetHeader hs ''X-402-Nonce'' = []"
    using that by (rule route_challenge)
  show "summarize_route env post bindJSON getCacheKey model callOpenRouter uuid hs payload cache = ((403, H_details ''Invalid Signature'' (Error resp)), cache)"
    if "GetHeader hs ''X-402-Signature'' \<noteq> [] \<and> GetHeader hs ''X-402-Nonce'' \<noteq> [] \<and>
      verify_call env post hs = Some resp \<and> \<not> IsValid resp"
    using that by (simp add: route_rejects)
  show "summarize_route env post bindJSON getCacheKey model callOpenRouter uuid hs payload cache = ((500, H_error ''Verification service unavailable''), cache)"
    if "GetHeader hs ''X-402-Signature'' \<noteq> [] \<and> GetHeader hs ''X-402-Nonce'' \<noteq> [] \<and>
      verify_call env post hs = None"
    using that by (simp add: route_unavailable)
  show "status = 200" and "GetHeader hs ''X-402-Signature'' \<noteq> []"
    and "GetHeader hs ''X-402-Nonce'' \<noteq> []"
    and "\<exists>resp1. verify_call env post hs = Some resp1 \<and> IsValid resp1"
    if "fst (summarize_route env post bindJSON getCacheKey model callOpenRouter uuid hs payload cache) = (status, H_result v)"
    using route_result[OF that] by blast+
  show "summarize_route env post bindJSON getCacheKey model callOpenRouter uuid hs payload cache = ((200, H_result v), cache)"
    if "GetHeader hs ''X-402-Signature'' \<noteq> [] \<and> GetHeader hs ''X-402-Nonce'' \<noteq> [] \<and>
      verify_call env post hs = Some resp \<and> IsValid resp \<and> bindJSON payload = Some tx \<and>
      cache (getCacheKey tx model) = Some v"
    using that by (elim conjE) (rule route_hit[where resp = resp]; assumption)
  show "summarize_route env post bindJSON getCacheKey model callOpenRouter uuid hs payload cache = ((200, H_result v), cache(getCacheKey tx model \<mapsto> v))"
    if "GetHeader hs ''X-402-Signature'' \<noteq> [] \<and> GetHeader hs ''X-402-Nonce'' \<noteq> [] \<and>
      verify_call env post hs = Some resp \<and> IsValid resp \<and> bindJSON payload = Some tx \<and>
      cache (getCacheKey tx model) = None \<and> callOpenRouter tx = Inr v"
    using that by (elim conjE) (rule route_miss[where resp = resp]; assumption)
  show "x402_route cfg vtd pI uuid now_ms getCacheKey model text_of provider req st cache =
          (Reply 402
             (PaymentRequired ''Payment Required''
                ''Please sign the payment context and retry with X-402-Signature and X-402-Nonce headers.''
                (fst (createPaymentContext cfg uuid now_ms None st))),
           insert uuid st, cache)"
    if "falsy (headers req ''x-402-signature'') \<or> falsy (headers req ''x-402-nonce'')"
    using that by (rule x402_route_challenge)
  show "x402_route cfg vtd pI uuid now_ms getCacheKey model text_of provider req st cache =
          (Reply 403 (Failure ''Payment Verification Failed''
                        (error (fst (verifyPayment vtd (request_context cfg n p) s st)))),
           st, cache)"
    if "presents pI req s n t p \<and> \<not> isValid (fst (verifyPayment vtd (request_context cfg n p) s st))"
    using that by (elim conjE) (rule x402_route_rejects[where t = t]; assumption)
  show "x402_route cfg vtd pI uuid now_ms getCacheKey model text_of provider req st cache =
          (Reply 400 (Failure ''Invalid timestamp'' (Some ''Missing X-402-Timestamp header'')), st, cache)"
    if "\<not> falsy (headers req ''x-402-signature'') \<and> \<not> falsy (headers req ''x-402-nonce'') \<and>
      falsy (headers req ''x-402-timestamp'')"
    using that by (simp add: x402_route_no_timestamp)
  show "\<exists>s1 n1 t1 p1. presents pI req s1 n1 t1 p1 \<and>
           isValid (fst (verifyPayment vtd (request_context cfg n1 p1) s1 st))"
    if "fst (x402_route cfg vtd pI uuid now_ms getCacheKey model text_of provider req st cache) = Downstream res"
    using that by (rule x402_route_downstream)
  show "status2 = 402 \<or> status2 = 400 \<or> status2 = 403"
    and "snd (snd (x402_route cfg vtd pI uuid now_ms getCacheKey model text_of provider req st cache)) = cache"
    if "fst (x402_route cfg vtd pI uuid now_ms getCacheKey model text_of provider req st cache) = Reply status2 jb"
    using x402_route_reply[OF that] by blast+
  show "x402_route cfg vtd pI uuid now_ms getCacheKey model text_of provider req st cache = (Downstream (Inr v2), st - {n}, cache)"
    if "presents pI req s n t p \<and> n \<in> st \<and> vtd (typed_value (request_context cfg n p)) s = Some a \<and>
      cache (getCacheKey (text_of (req\<lparr>userWallet := Some a\<rparr>)) model) = Some v2"
    using that by (elim conjE) (rule x402_route_hit[where t = t and p = p and a = a]; assumption)
qed

text \<open>
  C1 on the sample collaborators, with a cache that holds the entry for the request's text:
  no headers gives 402, the invalid signature 403, the unreachable verifier 500 and the
  missing timestamp 400, each with the cache unchanged; the valid signature is served the
  cached result, and on an empty cache the provider's result, which is then stored.
\<close>

theorem C1_witness:
  "(GetHeader Map.empty ''X-402-Signature'' = [] \<or> GetHeader Map.empty ''X-402-Nonce'' = [])
   \<and> (summarize_route Map.empty sample_post Some sample_getCacheKey sample_model Inr sample_uuid Map.empty ''body'' sample_cache =
         ((402, H_payment ''Payment Required'' ''Please sign the payment context''
             (createPaymentContext_go Map.empty sample_uuid)), sample_cache))
   \<and> (GetHeader (sample_headers_go ''0xInvalidSig'') ''X-402-Signature'' \<noteq> [] \<and> GetHeader (sample_headers_go ''0xInvalidSig'') ''X-402-Nonce'' \<noteq> [] \<and>
         verify_call Map.empty sample_post (sample_headers_go ''0xInvalidSig'') = Some \<lparr>IsValid = False, RecoveredAddress = ''0xTestUser'', Error = ''Invalid signature''\<rparr> \<and>
         \<not> IsValid \<lparr>IsValid = False, RecoveredAddress = ''0xTestUser'', Error = ''Invalid signature''\<rparr>)
   \<and> (summarize_route Map.empty sample_post Some sample_getCacheKey sample_model Inr sample_uuid (sample_headers_go ''0xInvalidSig'') ''body'' sample_cache =
         ((403, H_details ''Invalid Signature'' (Error \<lparr>IsValid = False, RecoveredAddress = ''0xTestUser'', Error = ''Invalid signature''\<rparr>)), sample_cache))
   \<and> (GetHeader (sample_headers_go ''0xValidSig'') ''X-402-Signature'' \<noteq> [] \<and> GetHeader (sample_headers_go ''0xValidSig'') ''X-402-Nonce'' \<noteq> [] \<and>
         verify_call Map.empty sample_post_down (sample_headers_go ''0xValidSig'') = None)
   \<and> (summarize_route Map.empty sample_post_down Some sample_getCacheKey sample_model Inr sample_uuid (sample_headers_go ''0xValidSig'') ''body'' sample_cache =
         ((500, H_error ''Verification service unavailable''), sample_cache))
   \<and> (GetHeader (sample_headers_go ''0xValidSig'') ''X-402-Signature'' \<noteq> [] \<and> GetHeader (sample_headers_go ''0xValidSig'') ''X-402-Nonce'' \<noteq> [] \<and>
         verify_call Map.empty sample_post (sample_headers_go ''0xValidSig'') = Some \<lparr>IsValid = True, RecoveredAddress = ''0xTestUser'', Error = []\<rparr> \<and>
         IsValid \<lparr>IsValid = True, RecoveredAddress = ''0xTestUser'', Error = []\<rparr> \<and> Some ''body'' = Some ''body'' \<and>
         sample_cache (sample_getCacheKey ''body'' sample_model) = Some ''AI Summary Result'')
   \<and> (summarize_route Map.empty sample_post Some sample_getCacheKey sample_model Inr sample_uuid (sample_headers_go ''0xValidSig'') ''body'' sample_cache =
         ((200, H_result ''AI Summary Result''), sample_cache))
   \<and> (200 = (200 :: int) \<and> GetHeader (sample_headers_go ''0xValidSig'') ''X-402-Signature'' \<noteq> [] \<and>
         GetHeader (sample_headers_go ''0xValidSig'') ''X-402-Nonce'' \<noteq> [] \<and>
         (\<exists>resp1. verify_call Map.empty sample_post (sample_headers_go ''0xValidSig'') = Some resp1 \<and> IsValid resp1))
   \<and> (GetHeader (sample_headers_go ''0xValidSig'') ''X-402-Signature'' \<noteq> [] \<and> GetHeader (sample_headers_go ''0xValidSig'') ''X-402-Nonce'' \<noteq> [] \<and>
         verify_call Map.empty sample_post (sample_headers_go ''0xValidSig'') = Some \<lparr>IsValid = True, RecoveredAddress = ''0xTestUser'', Error = []\<rparr> \<and>
         IsValid \<lparr>IsValid = True, RecoveredAddress = ''0xTestUser'', Error = []\<rparr> \<and> Some ''body'' = Some ''body'' \<and>
         Map.empty (sample_getCacheKey ''body'' sample_model) = None \<and> Inr ''body'' = Inr ''body'')
   \<and> (summarize_route Map.empty sample_post Some sample_getCacheKey sample_model Inr sample_uuid (sample_headers_go ''0xValidSig'') ''body'' Map.empty =
         ((200, H_result ''body''), [sample_getCacheKey ''body'' sample_model \<mapsto> ''body'']))
   \<and> (falsy (headers no_headers ''x-402-signature'') \<or> falsy (headers no_headers ''x-402-nonce''))
   \<and> (x402_route sample_config sample_verifyTypedData sample_parseInt sample_uuid 1700000000000 sample_getCacheKey sample_model sample_text_of Inr no_headers {''n1''} sample_cache =
         (Reply 402
            (PaymentRequired ''Payment Required''
               ''Please sign the payment context and retry with X-402-Signature and X-402-Nonce headers.''
               (fst (createPaymentContext sample_config sample_uuid 1700000000000 None {''n1''}))),
          insert sample_uuid {''n1''}, sample_cache))
   \<and> (presents sample_parseInt (sample_request ''0xInvalidSig'' ''n1'' ''1700000000'') ''0xInvalidSig'' ''n1'' ''1700000000'' 1700000000 \<and>
         \<not> isValid (fst (verifyPayment sample_verifyTypedData (request_context sample_config ''n1'' 1700000000) ''0xInvalidSig'' {''n1''})))
   \<and> (x402_route sample_config sample_verifyTypedData sample_parseInt sample_uuid 1700000000000 sample_getCacheKey sample_model sample_text_of Inr (sample_request ''0xInvalidSig'' ''n1'' ''1700000000'') {''n1''} sample_cache =
         (Reply 403 (Failure ''Payment Verification Failed''
            (error (fst (verifyPayment sample_verifyTypedData (request_context sample_config ''n1'' 1700000000) ''0xInvalidSig'' {''n1''})))),
          {''n1''}, sample_cache))
   \<and> (\<not> falsy (headers (sample_request_no_timestamp ''0xInvalidSig'' ''n1'') ''x-402-signature'') \<and>
         \<not> falsy (headers (sample_request_no_timestamp ''0xInvalidSig'' ''n1'') ''x-402-nonce'') \<and>
         falsy (headers (sample_request_no_timestamp ''0xInvalidSig'' ''n1'') ''x-402-timestamp''))
   \<and> (x402_route sample_config sample_verifyTypedData sample_parseInt sample_uuid 1700000000000 sample_getCacheKey sample_model sample_text_of Inr (sample_request_no_timestamp ''0xInvalidSig'' ''n1'') {''n1''} sample_cache =
         (Reply 400 (Failure ''Invalid timestamp'' (Some ''Missing X-402-Timestamp header'')), {''n1''}, sample_cache))
   \<and> (((400 :: int) = 402 \<or> (400 :: int) = 400 \<or> (400 :: int) = 403) \<and>
         snd (snd (x402_route sample_config sample_verifyTypedData sample_parseInt sample_uuid 1700000000000 sample_getCacheKey sample_model sample_text_of Inr (sample_request_no_timestamp ''0xInvalidSig'' ''n1'') {''n1''} sample_cache)) = sample_cache)
   \<and> (presents sample_parseInt (sample_request ''0xValidSig'' ''n1'' ''1700000000'') ''0xValidSig'' ''n1'' ''1700000000'' 1700000000 \<and>
         ''n1'' \<in> {''n1''} \<and>
         sample_verifyTypedData (typed_value (request_context sample_config ''n1'' 1700000000)) ''0xValidSig'' = Some ''0xTestUser'' \<and>
         sample_cache (sample_getCacheKey (sample_text_of ((sample_request ''0xValidSig'' ''n1'' ''1700000000'')\<lparr>userWallet := Some ''0xTestUser''\<rparr>)) sample_model)
           = Some ''AI Summary Result'')
   \<and> (x402_route sample_config sample_verifyTypedData sample_parseInt sample_uuid 1700000000000 sample_getCacheKey sample_model sample_text_of Inr (sample_request ''0xValidSig'' ''n1'' ''1700000000'') {''n1''} sample_cache =
         (Downstream (Inr ''AI Summary Result''), {''n1''} - {''n1''}, sample_cache))
   \<and> (\<exists>s1 n1 t1 p1. presents sample_parseInt (sample_request ''0xValidSig'' ''n1'' ''1700000000'') s1 n1 t1 p1 \<and>
         isValid (fst (verifyPayment sample_verifyTypedData (request_context sample_config n1 p1) s1 {''n1''})))"
proof -
  note A = C1_cache_never_bypasses_payment [where env = Map.empty and bindJSON = Some and getCacheKey = sample_getCacheKey and model = sample_model and callOpenRouter = Inr and uuid = sample_uuid and payload = "''body''"
      and cfg = sample_config and vtd = sample_verifyTypedData and pI = sample_parseInt and now_ms = 1700000000000 and text_of = sample_text_of and provider = Inr and st = "{''n1''}"
      and hs = Map.empty and post = sample_post and cache = sample_cache and req = no_headers]
  note B = C1_cache_never_bypasses_payment [where env = Map.empty and bindJSON = Some and getCacheKey = sample_getCacheKey and model = sample_model and callOpenRouter = Inr and uuid = sample_uuid and payload = "''body''"
      and cfg = sample_config and vtd = sample_verifyTypedData and pI = sample_parseInt and now_ms = 1700000000000 and text_of = sample_text_of and provider = Inr and st = "{''n1''}"
      and hs = "sample_headers_go ''0xInvalidSig''" and post = sample_post and cache = sample_cache
      and resp = "\<lparr>IsValid = False, RecoveredAddress = ''0xTestUser'', Error = ''Invalid signature''\<rparr>"
      and req = "sample_request ''0xInvalidSig'' ''n1'' ''1700000000''" and s = "''0xInvalidSig''"
      and n = "''n1''" and t = "''1700000000''" and p = 1700000000]
  note C = C1_cache_never_bypasses_payment [where env = Map.empty and bindJSON = Some and getCacheKey = sample_getCacheKey and model = sample_model and callOpenRouter = Inr and uuid = sample_uuid and payload = "''body''"
      and cfg = sample_config and vtd = sample_verifyTypedData and pI = sample_parseInt and now_ms = 1700000000000 and text_of = sample_text_of and provider = Inr and st = "{''n1''}"
      and hs = "sample_headers_go ''0xValidSig''" and post = sample_post_down and cache = sample_cache
      and req = "sample_request_no_timestamp ''0xInvalidSig'' ''n1''" and ?status2.0 = 400
      and jb = "Failure ''Invalid timestamp'' (Some ''Missing X-402-Timestamp header'')"]
  note D = C1_cache_never_bypasses_payment [where env = Map.empty and bindJSON = Some and getCacheKey = sample_getCacheKey and model = sample_model and callOpenRouter = Inr and uuid = sample_uuid and payload = "''body''"
      and cfg = sample_config and vtd = sample_verifyTypedData and pI = sample_parseInt and now_ms = 1700000000000 and text_of = sample_text_of and provider = Inr and st = "{''n1''}"
      and hs = "sample_headers_go ''0xValidSig''" and post = sample_post and cache = sample_cache
      and resp = "\<lparr>IsValid = True, RecoveredAddress = ''0xTestUser'', Error = []\<rparr>" and tx = "''body''"
      and v = "''AI Summary Result''" and status = 200
      and req = "sample_request ''0xValidSig'' ''n1'' ''1700000000''" and s = "''0xValidSig''"
      and n = "''n1''" and t = "''1700000000''" and p = 1700000000 and a = "''0xTestUser''"
      and ?v2.0 = "''AI Summary Result''" and res = "Inr ''AI Summary Result''"]
  note E = C1_cache_never_bypasses_payment [where env = Map.empty and bindJSON = Some and getCacheKey = sample_getCacheKey and model = sample_model and callOpenRouter = Inr and uuid = sample_uuid and payload = "''body''"
      and cfg = sample_config and vtd = sample_verifyTypedData and pI = sample_parseInt and now_ms = 1700000000000 and text_of = sample_text_of and provider = Inr and st = "{''n1''}"
      and hs = "sample_headers_go ''0xValidSig''" and post = sample_post and cache = Map.empty
      and resp = "\<lparr>IsValid = True, RecoveredAddress = ''0xTestUser'', Error = []\<rparr>" and tx = "''body''" and v = "''body''"]
  have hA: "GetHeader Map.empty ''X-402-Signature'' = [] \<or> GetHeader Map.empty ''X-402-Nonce'' = []"
    by (simp add: GetHeader_def)
  have w1: "summarize_route Map.empty sample_post Some sample_getCacheKey sample_model Inr sample_uuid Map.empty ''body'' sample_cache =
      ((402, H_payment ''Payment Required'' ''Please sign the payment context''
          (createPaymentContext_go Map.empty sample_uuid)), sample_cache)"
    by (rule A [THEN conjunct1, THEN mp, OF hA])
  have hB: "GetHeader (sample_headers_go ''0xInvalidSig'') ''X-402-Signature'' \<noteq> [] \<and> GetHeader (sample_headers_go ''0xInvalidSig'') ''X-402-Nonce'' \<noteq> [] \<and>
      verify_call Map.empty sample_post (sample_headers_go ''0xInvalidSig'') = Some \<lparr>IsValid = False, RecoveredAddress = ''0xTestUser'', Error = ''Invalid signature''\<rparr> \<and>
      \<not> IsValid \<lparr>IsValid = False, RecoveredAddress = ''0xTestUser'', Error = ''Invalid signature''\<rparr>"
    by (simp add: sample_headers_go_def GetHeader_def verify_call_def sample_post_def)
  have w2: "summarize_route Map.empty sample_post Some sample_getCacheKey sample_model Inr sample_uuid (sample_headers_go ''0xInvalidSig'') ''body'' sample_cache =
      ((403, H_details ''Invalid Signature'' (Error \<lparr>IsValid = False, RecoveredAddress = ''0xTestUser'', Error = ''Invalid signature''\<rparr>)), sample_cache)"
    by (rule B [THEN conjunct2, THEN conjunct1, THEN mp, OF hB])
  have hC: "GetHeader (sample_headers_go ''0xValidSig'') ''X-402-Signature'' \<noteq> [] \<and> GetHeader (sample_headers_go ''0xValidSig'') ''X-402-Nonce'' \<noteq> [] \<and>
      verify_call Map.empty sample_post_down (sample_headers_go ''0xValidSig'') = None"
    by (simp add: sample_headers_go_def GetHeader_def verify_call_def sample_post_down_def)
  have w3: "summarize_route Map.empty sample_post_down Some sample_getCacheKey sample_model Inr sample_uuid (sample_headers_go ''0xValidSig'') ''body'' sample_cache =
      ((500, H_error ''Verification service unavailable''), sample_cache)"
    by (rule C [THEN conjunct2, THEN conjunct2, THEN conjunct1, THEN mp, OF hC])
  have hD: "GetHeader (sample_headers_go ''0xValidSig'') ''X-402-Signature'' \<noteq> [] \<and> GetHeader (sample_headers_go ''0xValidSig'') ''X-402-Nonce'' \<noteq> [] \<and>
      verify_call Map.empty sample_post (sample_headers_go ''0xValidSig'') = Some \<lparr>IsValid = True, RecoveredAddress = ''0xTestUser'', Error = []\<rparr> \<and>
      IsValid \<lparr>IsValid = True, RecoveredAddress = ''0xTestUser'', Error = []\<rparr> \<and> Some ''body'' = Some ''body'' \<and>
      sample_cache (sample_getCacheKey ''body'' sample_model) = Some ''AI Summary Result''"
    by (simp add: sample_headers_go_def GetHeader_def verify_call_def sample_post_def sample_cache_def)
  have w5: "summarize_route Map.empty sample_post Some sample_getCacheKey sample_model Inr sample_uuid (sample_headers_go ''0xValidSig'') ''body'' sample_cache =
      ((200, H_result ''AI Summary Result''), sample_cache)"
    by (rule D [THEN conjunct2, THEN conjunct2, THEN conjunct2, THEN conjunct2, THEN conjunct1, THEN mp, OF hD])
  have h4: "fst (summarize_route Map.empty sample_post Some sample_getCacheKey sample_model Inr sample_uuid (sample_headers_go ''0xValidSig'') ''body'' sample_cache) = (200, H_result ''AI Summary Result'')"
    by (simp add: w5)
  have w4: "200 = (200 :: int) \<and> GetHeader (sample_headers_go ''0xValidSig'') ''X-402-Signature'' \<noteq> [] \<and>
      GetHeader (sample_headers_go ''0xValidSig'') ''X-402-Nonce'' \<noteq> [] \<and>
      (\<exists>resp1. verify_call Map.empty sample_post (sample_headers_go ''0xValidSig'') = Some resp1 \<and> IsValid resp1)"
    by (rule D [THEN conjunct2, THEN conjunct2, THEN conjunct2, THEN conjunct1, THEN mp, OF h4])
  have hE: "GetHeader (sample_headers_go ''0xValidSig'') ''X-402-Signature'' \<noteq> [] \<and> GetHeader (sample_headers_go ''0xValidSig'') ''X-402-Nonce'' \<noteq> [] \<and>
      verify_call Map.empty sample_post (sample_headers_go ''0xValidSig'') = Some \<lparr>IsValid = True, RecoveredAddress = ''0xTestUser'', Error = []\<rparr> \<and>
      IsValid \<lparr>IsValid = True, RecoveredAddress = ''0xTestUser'', Error = []\<rparr> \<and> Some ''body'' = Some ''body'' \<and>
      Map.empty (sample_getCacheKey ''body'' sample_model) = None \<and> Inr ''body'' = Inr ''body''"
    by (simp add: sample_headers_go_def GetHeader_def verify_call_def sample_post_def)
  have w6: "summarize_route Map.empty sample_post Some sample_getCacheKey sample_model Inr sample_uuid (sample_headers_go ''0xValidSig'') ''body'' Map.empty =
      ((200, H_result ''body''), [sample_getCacheKey ''body'' sample_model \<mapsto> ''body''])"
    by (rule E [THEN conjunct2, THEN conjunct2, THEN conjunct2, THEN conjunct2, THEN conjunct2, THEN conjunct1, THEN mp, OF hE])
  have hA2: "falsy (headers no_headers ''x-402-signature'') \<or> falsy (headers no_headers ''x-402-nonce'')"
    by (simp add: falsy_def no_headers_def)
  have w7: "x402_route sample_config sample_verifyTypedData sample_parseInt sample_uuid 1700000000000 sample_getCacheKey sample_model sample_text_of Inr no_headers {''n1''} sample_cache =
      (Reply 402
         (PaymentRequired ''Payment Required''
            ''Please sign the payment context and retry with X-402-Signature and X-402-Nonce headers.''
            (fst (createPaymentContext sample_config sample_uuid 1700000000000 None {''n1''}))),
       insert sample_uuid {''n1''}, sample_cache)"
    by (rule A [THEN conjunct2, THEN conjunct2, THEN conjunct2, THEN conjunct2, THEN conjunct2, THEN conjunct2, THEN conjunct1, THEN mp, OF hA2])
  have hB2: "presents sample_parseInt (sample_request ''0xInvalidSig'' ''n1'' ''1700000000'') ''0xInvalidSig'' ''n1'' ''1700000000'' 1700000000 \<and>
      \<not> isValid (fst (verifyPayment sample_verifyTypedData (request_context sample_config ''n1'' 1700000000) ''0xInvalidSig'' {''n1''}))"
    by (simp add: presents_sample verifyPayment_def sample_verifyTypedData_def request_context_def)
  have w8: "x402_route sample_config sample_verifyTypedData sample_parseInt sample_uuid 1700000000000 sample_getCacheKey sample_model sample_text_of Inr (sample_request ''0xInvalidSig'' ''n1'' ''1700000000'') {''n1''} sample_cache =
      (Reply 403 (Failure ''Payment Verification Failed''
         (error (fst (verifyPayment sample_verifyTypedData (request_context sample_config ''n1'' 1700000000) ''0xInvalidSig'' {''n1''})))),
       {''n1''}, sample_cache)"
    by (rule B [THEN conjunct2, THEN conjunct2, THEN conjunct2, THEN conjunct2, THEN conjunct2, THEN conjunct2, THEN conjunct2, THEN conjunct1, THEN mp, OF hB2])
  have hC2: "\<not> falsy (headers (sample_request_no_timestamp ''0xInvalidSig'' ''n1'') ''x-402-signature'') \<and>
      \<not> falsy (headers (sample_request_no_timestamp ''0xInvalidSig'' ''n1'') ''x-402-nonce'') \<and>
      falsy (headers (sample_request_no_timestamp ''0xInvalidSig'' ''n1'') ''x-402-timestamp'')"
    by (simp add: falsy_def sample_request_no_timestamp_def)
  have w9: "x402_route sample_config sample_verifyTypedData sample_parseInt sample_uuid 1700000000000 sample_getCacheKey sample_model sample_text_of Inr (sample_request_no_timestamp ''0xInvalidSig'' ''n1'') {''n1''} sample_cache =
      (Reply 400 (Failure ''Invalid timestamp'' (Some ''Missing X-402-Timestamp header'')), {''n1''}, sample_cache)"
    by (rule C [THEN conjunct2, THEN conjunct2, THEN conjunct2, THEN conjunct2, THEN conjunct2, THEN conjunct2, THEN conjunct2, THEN conjunct2, THEN conjunct1, THEN mp, OF hC2])
  have h11: "fst (x402_route sample_config sample_verifyTypedData sample_parseInt sample_uuid 1700000000000 sample_getCacheKey sample_model sample_text_of Inr (sample_request_no_timestamp ''0xInvalidSig'' ''n1'') {''n1''} sample_cache) =
      Reply 400 (Failure ''Invalid timestamp'' (Some ''Missing X-402-Timestamp header''))"
    by (simp add: w9)
  have w11: "((400 :: int) = 402 \<or> (400 :: int) = 400 \<or> (400 :: int) = 403) \<and>
      snd (snd (x402_route sample_config sample_verifyTypedData sample_parseInt sample_uuid 1700000000000 sample_getCacheKey sample_model sample_text_of Inr (sample_request_no_timestamp ''0xInvalidSig'' ''n1'') {''n1''} sample_cache)) = sample_cache"
    by (rule C [THEN conjunct2, THEN conjunct2, THEN conjunct2, THEN conjunct2, THEN conjunct2, THEN conjunct2, THEN conjunct2, THEN conjunct2, THEN conjunct2, THEN conjunct2, THEN conjunct1, THEN mp, OF h11])
  have hD2: "presents sample_parseInt (sample_request ''0xValidSig'' ''n1'' ''1700000000'') ''0xValidSig'' ''n1'' ''1700000000'' 1700000000 \<and>
      ''n1'' \<in> {''n1''} \<and>
      sample_verifyTypedData (typed_value (request_context sample_config ''n1'' 1700000000)) ''0xValidSig'' = Some ''0xTestUser'' \<and>
      sample_cache (sample_getCacheKey (sample_text_of ((sample_request ''0xValidSig'' ''n1'' ''1700000000'')\<lparr>userWallet := Some ''0xTestUser''\<rparr>)) sample_model)
        = Some ''AI Summary Result''"
    by (simp add: presents_sample sample_verifyTypedData_def sample_cache_def sample_text_of_def)
  have w12: "x402_route sample_config sample_verifyTypedData sample_parseInt sample_uuid 1700000000000 sample_getCacheKey sample_model sample_text_of Inr (sample_request ''0xValidSig'' ''n1'' ''1700000000'') {''n1''} sample_cache =
      (Downstream (Inr ''AI Summary Result''), {''n1''} - {''n1''}, sample_cache)"
    by (rule D [THEN conjunct2, THEN conjunct2, THEN conjunct2, THEN conjunct2, THEN conjunct2, THEN conjunct2, THEN conjunct2, THEN conjunct2, THEN conjunct2, THEN conjunct2, THEN conjunct2, THEN mp, OF hD2])
  have h10: "fst (x402_route sample_config sample_verifyTypedData sample_parseInt sample_uuid 1700000000000 sample_getCacheKey sample_model sample_text_of Inr (sample_request ''0xValidSig'' ''n1'' ''1700000000'') {''n1''} sample_cache) = Downstream (Inr ''AI Summary Result'')"
    by (simp add: w12)
  have w10: "\<exists>s1 n1 t1 p1. presents sample_parseInt (sample_request ''0xValidSig'' ''n1'' ''1700000000'') s1 n1 t1 p1 \<and>
      isValid (fst (verifyPayment sample_verifyTypedData (request_context sample_config n1 p1) s1 {''n1''}))"
    by (rule D [THEN conjunct2, THEN conjunct2, THEN conjunct2, THEN conjunct2, THEN conjunct2, THEN conjunct2, THEN conjunct2, THEN conjunct2, THEN conjunct2, THEN conjunct1, THEN mp, OF h10])
  show ?thesis
    by (rule conjI [OF hA conjI [OF w1 conjI [OF hB conjI [OF w2 conjI [OF hC conjI [OF w3 conjI [OF hD conjI [OF w5 conjI [OF w4 conjI [OF hE conjI [OF w6 conjI [OF hA2 conjI [OF w7 conjI [OF hB2 conjI [OF w8 conjI [OF hC2 conjI [OF w9 conjI [OF w11 conjI [OF hD2 conjI [OF w12 w10]]]]]]]]]]]]]]]]]]]])
qed

text \<open>
  Against claim C3 as stated: with the clock at 1700000000 and an expiry of 300 seconds, a
  claim whose timestamp is 1 is accepted by \<^verbatim>\<open>verifyPayment\<close>, and the middleware passes
  the request that carries it to the downstream handler.
\<close>

theorem C3_counterexample:
  "(1::int) < 1700000000 - 300
   \<and> verifyPayment sample_verifyTypedData (request_context sample_config ''n1'' 1) ''0xValidSig'' {''n1''}
       = (\<lparr>isValid = True, error = None, signer = Some ''0xTestUser''\<rparr>, {})
   \<and> x402Middleware sample_config sample_verifyTypedData sample_parseInt sample_uuid (1700000000 * 1000)
        (sample_cached_handler ''AI Summary Result'') (sample_request ''0xValidSig'' ''n1'' ''1'') {''n1''}
       = (Downstream ''AI Summary Result'', {})"
proof -
  have p: "presents sample_parseInt (sample_request ''0xValidSig'' ''n1'' ''1'') ''0xValidSig'' ''n1'' ''1'' 1"
    by (simp add: presents_def sample_request_def sample_parseInt_def)
  have v: "verifyPayment sample_verifyTypedData (request_context sample_config ''n1'' 1) ''0xValidSig'' {''n1''}
       = (\<lparr>isValid = True, error = None, signer = Some ''0xTestUser''\<rparr>, {})"
    by (simp add: verifyPayment_def sample_verifyTypedData_def request_context_def)
  show ?thesis
    by (simp add: v x402_verify[OF p] sample_cached_handler_def)
qed

text \<open>
  Claim C3, amended. \<^verbatim>\<open>verifyPayment\<close> applies no time window: a claim whose nonce is in
  the store and whose signature recovers is valid whatever its timestamp (older than
  \<open>now - expirySeconds\<close>, newer than \<open>now + clockSkewSeconds\<close>, or exactly at
  \<open>now - expirySeconds\<close>); the timestamp only enters the signed data. Its only errors are
  "Invalid or expired nonce" and "Signature verification failed". The middleware accepts
  every timestamp header that parses to a positive integer, and reads no clock when it
  verifies.
\<close>

theorem C3_no_timestamp_window:
  "(nonce c \<in> st \<and> vtd (typed_value (c\<lparr>timestamp := ts\<rparr>)) sg = Some a \<longrightarrow>
      verifyPayment vtd (c\<lparr>timestamp := ts\<rparr>) sg st =
        (\<lparr>isValid = True, error = None, signer = Some a\<rparr>, st - {nonce c}))
   \<and> (error (fst (verifyPayment vtd c sg st)) = None
        \<or> error (fst (verifyPayment vtd c sg st)) = Some ''Invalid or expired nonce''
        \<or> error (fst (verifyPayment vtd c sg st)) = Some ''Signature verification failed'')
   \<and> (presents pI req s n t p \<and> n \<in> st \<and> vtd (typed_value (request_context cfg n p)) s = Some a \<longrightarrow>
        x402Middleware cfg vtd pI uuid now_ms nxt req st =
          (Downstream (nxt (req\<lparr>userWallet := Some a\<rparr>)), st - {n}))"
proof (intro conjI impI)
  assume "nonce c \<in> st \<and> vtd (typed_value (c\<lparr>timestamp := ts\<rparr>)) sg = Some a"
  then show "verifyPayment vtd (c\<lparr>timestamp := ts\<rparr>) sg st =
        (\<lparr>isValid = True, error = None, signer = Some a\<rparr>, st - {nonce c})"
    using verifyPayment_recovers[of "c\<lparr>timestamp := ts\<rparr>" st vtd sg a] by simp
next
  show "error (fst (verifyPayment vtd c sg st)) = None
        \<or> error (fst (verifyPayment vtd c sg st)) = Some ''Invalid or expired nonce''
        \<or> error (fst (verifyPayment vtd c sg st)) = Some ''Signature verification failed''"
    by (simp add: verifyPayment_def split: option.splits)
next
  assume "presents pI req s n t p \<and> n \<in> st \<and> vtd (typed_value (request_context cfg n p)) s = Some a"
  then show "x402Middleware cfg vtd pI uuid now_ms nxt req st =
          (Downstream (nxt (req\<lparr>userWallet := Some a\<rparr>)), st - {n})"
    by (intro x402_accepts[of pI req s n t p]) simp_all
qed

text \<open>C3 on the sample collaborators, with the timestamp 1.\<close>

theorem C3_witness:
  "nonce (request_context sample_config ''n1'' 1700000000) \<in> {''n1''}
   \<and> sample_verifyTypedData
        (typed_value ((request_context sample_config ''n1'' 1700000000)\<lparr>timestamp := 1\<rparr>)) ''0xValidSig''
        = Some ''0xTestUser''
   \<and> verifyPayment sample_verifyTypedData
        ((request_context sample_config ''n1'' 1700000000)\<lparr>timestamp := 1\<rparr>) ''0xValidSig'' {''n1''}
       = (\<lparr>isValid = True, error = None, signer = Some ''0xTestUser''\<rparr>,
          {''n1''} - {nonce (request_context sample_config ''n1'' 1700000000)})
   \<and> presents sample_parseInt (sample_request ''0xValidSig'' ''n1'' ''1'') ''0xValidSig'' ''n1'' ''1'' 1
   \<and> x402Middleware sample_config sample_verifyTypedData sample_parseInt sample_uuid 1700000000000
        (sample_cached_handler ''AI Summary Result'') (sample_request ''0xValidSig'' ''n1'' ''1'') {''n1''}
       = (Downstream (sample_cached_handler ''AI Summary Result''
            ((sample_request ''0xValidSig'' ''n1'' ''1'')\<lparr>userWallet := Some ''0xTestUser''\<rparr>)),
          {''n1''} - {''n1''})"
proof -
  note T = C3_no_timestamp_window [where c = "request_context sample_config ''n1'' 1700000000"
      and st = "{''n1''}" and vtd = sample_verifyTypedData and ts = 1 and sg = "''0xValidSig''"
      and a = "''0xTestUser''" and pI = sample_parseInt
      and req = "sample_request ''0xValidSig'' ''n1'' ''1''" and s = "''0xValidSig''" and n = "''n1''"
      and t = "''1''" and p = 1 and cfg = sample_config and uuid = sample_uuid
      and now_ms = 1700000000000 and nxt = "sample_cached_handler ''AI Summary Result''"]
  have h1: "nonce (request_context sample_config ''n1'' 1700000000) \<in> {''n1''}"
    by (simp add: request_context_def)
  have h2: "sample_verifyTypedData
        (typed_value ((request_context sample_config ''n1'' 1700000000)\<lparr>timestamp := 1\<rparr>)) ''0xValidSig''
        = Some ''0xTestUser''"
    by (simp add: sample_verifyTypedData_def)
  have h3: "presents sample_parseInt (sample_request ''0xValidSig'' ''n1'' ''1'') ''0xValidSig'' ''n1'' ''1'' 1"
    by (simp add: presents_def sample_request_def sample_parseInt_def)
  have h4: "''n1'' \<in> {''n1''}" by simp
  have h5: "sample_verifyTypedData (typed_value (request_context sample_config ''n1'' 1)) ''0xValidSig''
        = Some ''0xTestUser''"
    by (simp add: sample_verifyTypedData_def)
  have w1: "verifyPayment sample_verifyTypedData
        ((request_context sample_config ''n1'' 1700000000)\<lparr>timestamp := 1\<rparr>) ''0xValidSig'' {''n1''}
       = (\<lparr>isValid = True, error = None, signer = Some ''0xTestUser''\<rparr>,
          {''n1''} - {nonce (request_context sample_config ''n1'' 1700000000)})"
    by (rule T [THEN conjunct1, THEN mp, OF conjI, OF h1 h2])
  have w2: "x402Middleware sample_config sample_verifyTypedData sample_parseInt sample_uuid 1700000000000
        (sample_cached_handler ''AI Summary Result'') (sample_request ''0xValidSig'' ''n1'' ''1'') {''n1''}
       = (Downstream (sample_cached_handler ''AI Summary Result''
            ((sample_request ''0xValidSig'' ''n1'' ''1'')\<lparr>userWallet := Some ''0xTestUser''\<rparr>)),
          {''n1''} - {''n1''})"
    by (rule T [THEN conjunct2, THEN conjunct2, THEN mp, OF conjI, OF h3 conjI, OF h4 h5])
  show ?thesis
    by (intro conjI) (fact h1 h2 w1 h3 w2)+
qed

text \<open>
  Against claim C4 as stated: a nonce issued when the clock read 1000 seconds is presented
  when it reads 1700000000 seconds, far more than 300 + 60 seconds later, and the request
  is verified and served.
\<close>

theorem C4_counterexample:
  "(300::int) + 60 < 1700000000 - 1000000 div 1000
   \<and> snd (x402Middleware sample_config sample_verifyTypedData sample_parseInt sample_uuid 1000000
        (sample_cached_handler ''AI Summary Result'') no_headers {}) = {sample_uuid}
   \<and> x402Middleware sample_config sample_verifyTypedData sample_parseInt ''another-uuid'' (1700000000 * 1000)
        (sample_cached_handler ''AI Summary Result'')
        (sample_request ''0xValidSig'' sample_uuid ''1700000000'')
        (snd (x402Middleware sample_config sample_verifyTypedData sample_parseInt sample_uuid 1000000
           (sample_cached_handler ''AI Summary Result'') no_headers {}))
       = (Downstream ''AI Summary Result'', {})"
proof -
  have a: "snd (x402Middleware sample_config sample_verifyTypedData sample_parseInt sample_uuid 1000000
        (sample_cached_handler ''AI Summary Result'') no_headers {}) = {sample_uuid}"
    by (simp add: x402_challenge falsy_def no_headers_def)
  have n: "sample_uuid \<noteq> []" by (simp add: sample_uuid_def)
  have p: "presents sample_parseInt (sample_request ''0xValidSig'' sample_uuid ''1700000000'')
             ''0xValidSig'' sample_uuid ''1700000000'' 1700000000"
    using n by (simp add: presents_def sample_request_def sample_parseInt_def)
  have v: "sample_verifyTypedData (typed_value (request_context sample_config sample_uuid 1700000000))
             ''0xValidSig'' = Some ''0xTestUser''"
    by (simp add: sample_verifyTypedData_def)
  have m: "sample_uuid \<in> {sample_uuid}" by simp
  have "x402Middleware sample_config sample_verifyTypedData sample_parseInt ''another-uuid'' (1700000000 * 1000)
        (sample_cached_handler ''AI Summary Result'')
        (sample_request ''0xValidSig'' sample_uuid ''1700000000'') {sample_uuid}
       = (Downstream ''AI Summary Result'', {})"
    using x402_accepts[where st = "{sample_uuid}" and cfg = sample_config and vtd = sample_verifyTypedData and uuid = "''another-uuid''"
        and now_ms = "1700000000 * 1000" and nxt = "sample_cached_handler ''AI Summary Result''", OF p m v]
    by (simp add: sample_cached_handler_def)
  with a show ?thesis by simp
qed

text \<open>
  Claim C4, amended. A nonce entry carries no issue time and never expires:
  \<^verbatim>\<open>createPaymentContext\<close> adds the bare nonce to the store, which grows by one with
  every new nonce; nothing purges it, so the nonce stays in the store through every run of
  verification calls that do not present it with a signature that recovers; verification
  reads no clock; and a nonce issued at any time is accepted at any later time when it is
  presented with a signature that recovers.
\<close>

theorem C4_nonces_never_expire:
  "snd (createPaymentContext cfg uuid now_ms price st) = insert uuid st
   \<and> (finite st \<and> uuid \<notin> st \<longrightarrow> card (snd (createPaymentContext cfg uuid now_ms price st)) = Suc (card st))
   \<and> (n \<in> st \<and> (\<forall>(c, sg) \<in> set calls. nonce c \<noteq> n \<or> vtd (typed_value c) sg = None) \<longrightarrow>
        n \<in> snd (verifyPayments vtd calls st))
   \<and> (presents pI req s n t p \<longrightarrow>
        x402Middleware cfg vtd pI uuid1 now1 nxt req st = x402Middleware cfg vtd pI uuid2 now2 nxt req st)
   \<and> (presents pI req s uuid t p \<and> vtd (typed_value (request_context cfg uuid p)) s = Some a \<longrightarrow>
        x402Middleware cfg vtd pI uuid2 now2 nxt req (snd (createPaymentContext cfg uuid now_ms price st)) =
          (Downstream (nxt (req\<lparr>userWallet := Some a\<rparr>)), insert uuid st - {uuid}))"
proof (intro conjI impI)
  show e: "snd (createPaymentContext cfg uuid now_ms price st) = insert uuid st"
    by (simp add: createPaymentContext_def)
  show "card (snd (createPaymentContext cfg uuid now_ms price st)) = Suc (card st)"
    if "finite st \<and> uuid \<notin> st"
    using that by (simp add: e)
  show "n \<in> snd (verifyPayments vtd calls st)"
    if "n \<in> st \<and> (\<forall>(c, sg) \<in> set calls. nonce c \<noteq> n \<or> vtd (typed_value c) sg = None)"
    using that verifyPayments_keeps[of n st calls vtd] by blast
  show "x402Middleware cfg vtd pI uuid1 now1 nxt req st = x402Middleware cfg vtd pI uuid2 now2 nxt req st"
    if "presents pI req s n t p"
    using that by (rule x402_no_clock)
  show "x402Middleware cfg vtd pI uuid2 now2 nxt req (snd (createPaymentContext cfg uuid now_ms price st)) =
          (Downstream (nxt (req\<lparr>userWallet := Some a\<rparr>)), insert uuid st - {uuid})"
    if h: "presents pI req s uuid t p \<and> vtd (typed_value (request_context cfg uuid p)) s = Some a"
  proof -
    have m: "uuid \<in> insert uuid st" by simp
    from h have p: "presents pI req s uuid t p"
      and v: "vtd (typed_value (request_context cfg uuid p)) s = Some a" by simp_all
    show ?thesis unfolding e
      by (rule x402_accepts[where vtd = vtd, OF p m v])
  qed
qed

text \<open>
  C4 on the sample collaborators: a nonce issued at 1000 seconds survives a failed
  attempt and is accepted at 1700000000 seconds.
\<close>

theorem C4_witness:
  "snd (createPaymentContext sample_config sample_uuid 1000000 None {}) = insert sample_uuid {}
   \<and> card (snd (createPaymentContext sample_config sample_uuid 1000000 None {})) = Suc (card ({} :: string set))
   \<and> sample_uuid \<in> snd (verifyPayments sample_verifyTypedData
        [(request_context sample_config sample_uuid 1700000000, ''0xInvalidSig'')] {sample_uuid})
   \<and> presents sample_parseInt (sample_request ''0xValidSig'' sample_uuid ''1700000000'')
             ''0xValidSig'' sample_uuid ''1700000000'' 1700000000
   \<and> sample_verifyTypedData (typed_value (request_context sample_config sample_uuid 1700000000))
             ''0xValidSig'' = Some ''0xTestUser''
   \<and> x402Middleware sample_config sample_verifyTypedData sample_parseInt ''u1'' 1000000
        (sample_cached_handler ''AI Summary Result'')
        (sample_request ''0xValidSig'' sample_uuid ''1700000000'') {sample_uuid}
      = x402Middleware sample_config sample_verifyTypedData sample_parseInt ''u2'' 1700000000000
        (sample_cached_handler ''AI Summary Result'')
        (sample_request ''0xValidSig'' sample_uuid ''1700000000'') {sample_uuid}
   \<and> x402Middleware sample_config sample_verifyTypedData sample_parseInt ''u2'' 1700000000000
        (sample_cached_handler ''AI Summary Result'')
        (sample_request ''0xValidSig'' sample_uuid ''1700000000'')
        (snd (createPaymentContext sample_config sample_uuid 1000000 None {}))
      = (Downstream (sample_cached_handler ''AI Summary Result''
           ((sample_request ''0xValidSig'' sample_uuid ''1700000000'')\<lparr>userWallet := Some ''0xTestUser''\<rparr>)),
         insert sample_uuid {} - {sample_uuid})"
proof -
  note T = C4_nonces_never_expire [where cfg = sample_config and uuid = sample_uuid
      and now_ms = 1000000 and price = None and st = "{}" and vtd = sample_verifyTypedData
      and pI = sample_parseInt and req = "sample_request ''0xValidSig'' sample_uuid ''1700000000''"
      and s = "''0xValidSig''" and t = "''1700000000''" and p = 1700000000 and a = "''0xTestUser''"
      and ?uuid2.0 = "''u2''" and ?now2.0 = 1700000000000
      and nxt = "sample_cached_handler ''AI Summary Result''"]
  note U = C4_nonces_never_expire [where st = "{sample_uuid}" and n = sample_uuid
      and vtd = sample_verifyTypedData and cfg = sample_config
      and calls = "[(request_context sample_config sample_uuid 1700000000, ''0xInvalidSig'')]"
      and pI = sample_parseInt and req = "sample_request ''0xValidSig'' sample_uuid ''1700000000''"
      and s = "''0xValidSig''" and t = "''1700000000''" and p = 1700000000
      and ?uuid1.0 = "''u1''" and ?now1.0 = 1000000 and ?uuid2.0 = "''u2''" and ?now2.0 = 1700000000000
      and nxt = "sample_cached_handler ''AI Summary Result''"]
  have n: "sample_uuid \<noteq> []" by (simp add: sample_uuid_def)
  have p: "presents sample_parseInt (sample_request ''0xValidSig'' sample_uuid ''1700000000'')
             ''0xValidSig'' sample_uuid ''1700000000'' 1700000000"
    using n by (simp add: presents_def sample_request_def sample_parseInt_def)
  have v: "sample_verifyTypedData (typed_value (request_context sample_config sample_uuid 1700000000))
             ''0xValidSig'' = Some ''0xTestUser''"
    by (simp add: sample_verifyTypedData_def)
  have f: "finite ({} :: string set) \<and> sample_uuid \<notin> {}" by simp
  have k: "sample_uuid \<in> {sample_uuid} \<and>
      (\<forall>(c, sg) \<in> set [(request_context sample_config sample_uuid 1700000000, ''0xInvalidSig'')].
          nonce c \<noteq> sample_uuid \<or> sample_verifyTypedData (typed_value c) sg = None)"
    by (simp add: sample_verifyTypedData_def)
  show ?thesis
    by (intro conjI)
      (rule T [THEN conjunct1] T [THEN conjunct2, THEN conjunct1, THEN mp, OF f]
        U [THEN conjunct2, THEN conjunct2, THEN conjunct1, THEN mp, OF k] p v
        U [THEN conjunct2, THEN conjunct2, THEN conjunct2, THEN conjunct1, THEN mp, OF p]
        T [THEN conjunct2, THEN conjunct2, THEN conjunct2, THEN conjunct2, THEN mp, OF conjI, OF p v])+
qed



section \<open>Claims about the rate limiter\<close>







end
